theory Spec2Isabelle
  imports Main "HOL-Library.AList"
begin

section \<open>The container controller of the daemon (src/controllers/docker.js)\<close>

text \<open>
  The class \<^verbatim>\<open>Docker\<close> is written in continuation-passing style: every method takes a
  callback \<^verbatim>\<open>next\<close> and hands its outcome to it. A method is modelled as a function from
  the outcomes of the runtime calls it makes and the controller's state to the arguments
  its callback receives (or the fact that the callback is never invoked) and the new
  state. Handlers registered on a stream are functions of their own, run once per event.
\<close>

subsection \<open>Values\<close>

text \<open>A JavaScript \<^verbatim>\<open>Error\<close>: the controller only reads its \<^verbatim>\<open>message\<close>.\<close>

datatype error = Error (message: string)

text \<open>
  What a callback \<^verbatim>\<open>next(err, value)\<close> received: \<open>NotCalled\<close> when the method returns
  without ever invoking it, otherwise the error (absent when falsy) and the value
  (absent when not passed).
\<close>

datatype 'a callback = NotCalled | Called "error option" "'a option"

text \<open>
  Modelled from the spec: the status helper (src/helpers/status.js) is not among the
  sources; the spec gives the enumeration {OFF, STARTING, ON, STOPPING}, of which the
  controller uses \<^verbatim>\<open>Status.ON\<close> and \<^verbatim>\<open>Status.STARTING\<close>.
\<close>

datatype ServerStatus = OFF | STARTING | ON | STOPPING

text \<open>
  A stream handed out by the runtime client. \<open>writable\<close> is what
  \<^verbatim>\<open>isStream.isWritable\<close> answers for it, \<open>encoding\<close> what \<^verbatim>\<open>setEncoding\<close> stored,
  \<open>written\<close> the chunks passed to \<^verbatim>\<open>write\<close>, oldest first.
\<close>

record jsstream =
  stream_id :: nat
  writable :: bool
  encoding :: "string option"
  written :: "string list"

text \<open>
  A decoded telemetry value. The controller stores it and never looks inside; numbers
  are carried as integers.
\<close>

datatype json =
  JNull | JBool bool | JNumber int | JString string
  | JArray "json list" | JObject "(string \<times> json) list"

text \<open>
  The payload of a \<^verbatim>\<open>data\<close> event: text, or a value whose \<^verbatim>\<open>typeof\<close> is
  \<^verbatim>\<open>'object'\<close>.
\<close>

datatype chunk = Text string | Object json

text \<open>
  \<^verbatim>\<open>data.State.Running\<close> of an inspect answer: missing, a boolean, or any other
  JavaScript value.
\<close>

datatype running_value = Undefined | Bool bool | Other

record inspect_data =
  Running :: running_value

subsection \<open>The build configuration (\<^verbatim>\<open>server.json.build\<close>)\<close>

text \<open>
  The value under one host IP of \<^verbatim>\<open>config.ports\<close>: an array of port entries, or something
  that \<^verbatim>\<open>Array.isArray\<close> rejects. A port entry is a string or an ordinary port number and
  is represented by its string conversion: for these \<^verbatim>\<open>RegExp.test\<close>,
  \<^verbatim>\<open>Util.format('%s')\<close> and \<^verbatim>\<open>toString\<close>, the three uses the code makes of an entry, all
  see that one string. Values on which the three conversions can differ (arrays, objects,
  negative zero) are not port entries.
\<close>

datatype ports_value = Array "string list" | NotArray

text \<open>
  Objects are association lists in enumeration order; \<^const>\<open>AList.update\<close> is a
  property assignment (an existing key keeps its place, a new key goes last). Memory,
  swap, CPU, I/O, user and default port are whole numbers, each the exact value of the
  JavaScript number in the configuration.
\<close>

record build_config =
  image_cfg :: string
  env :: "(string \<times> string) list"
  ports :: "(string \<times> ports_value) list"
  memory :: int
  swap :: int
  cpu :: int
  io :: int
  oom_disabled :: "bool option"
  user :: int
  default_ip :: string
  default_port :: int

subsection \<open>The owning server\<close>

text \<open>
  Modelled from the spec: the server entity (src/controllers/server.js) is not among the
  sources. The controller consumes its container identifier, build configuration,
  data-directory path, status setter, output sink, stream-closed notifier and debug
  logger; each is modelled as the field it reads or the record of the calls it makes.
\<close>

record server =
  container_id :: string
  build :: build_config
  path :: string
  status :: ServerStatus
  output_log :: "string list"
  closed_count :: nat
  debug_log :: "string list"

definition setStatus :: "ServerStatus \<Rightarrow> server \<Rightarrow> server" where
  "setStatus s srv = srv\<lparr>status := s\<rparr>"

definition server_output :: "string \<Rightarrow> server \<Rightarrow> server" where
  "server_output d srv = srv\<lparr>output_log := output_log srv @ [d]\<rparr>"

definition streamClosed :: "server \<Rightarrow> server" where
  "streamClosed srv = srv\<lparr>closed_count := Suc (closed_count srv)\<rparr>"

definition log_debug :: "string \<Rightarrow> server \<Rightarrow> server" where
  "log_debug m srv = srv\<lparr>debug_log := debug_log srv @ [m]\<rparr>"

subsection \<open>JavaScript numbers\<close>

text \<open>
  The result of an arithmetic operation is a double. \<open>Finite n\<close> is the double whose
  value is the integer \<open>n\<close>; the configuration holds integers, and sums and products of
  integers are integers, so no fraction arises.
\<close>

datatype number = Finite int | Infinity | MinusInfinity | NaN

text \<open>
  Rounding an exact integer result to a double: a magnitude below \<open>2^53\<close> is kept; a
  larger one keeps its 53 leading bits, rounded to nearest with ties to the even
  mantissa. \<open>expo a\<close> is the number of low bits dropped.
\<close>

function expo :: "int \<Rightarrow> nat" where
  "expo a = (if a < 2 ^ 53 then 0 else Suc (expo (a div 2)))"
  by pat_completeness auto
termination
  by (relation "measure nat") auto

declare expo.simps [simp del]

definition round_double :: "int \<Rightarrow> int" where
  "round_double n =
     (let a = \<bar>n\<bar>; e = expo a; q = a div 2 ^ e; r = a mod 2 ^ e;
          m = (if 2 * r > 2 ^ e \<or> (2 * r = 2 ^ e \<and> odd q) then q + 1 else q)
      in sgn n * (m * 2 ^ e))"

text \<open>A rounded magnitude of \<open>2^1024\<close> or more is beyond the largest double.\<close>

definition to_number :: "int \<Rightarrow> number" where
  "to_number x =
     (let y = round_double x in
      if 2 ^ 1024 \<le> y then Infinity
      else if y \<le> - (2 ^ 1024) then MinusInfinity
      else Finite y)"

text \<open>\<^verbatim>\<open>a + b\<close> of two configured numbers, and \<^verbatim>\<open>x * c\<close> for a number and a literal.\<close>

definition js_add :: "int \<Rightarrow> int \<Rightarrow> number" where
  "js_add a b = to_number (a + b)"

definition js_times :: "number \<Rightarrow> int \<Rightarrow> number" where
  "js_times x c =
     (case x of
        Finite a \<Rightarrow> to_number (a * c)
      | Infinity \<Rightarrow> (if c > 0 then Infinity else if c < 0 then MinusInfinity else NaN)
      | MinusInfinity \<Rightarrow> (if c > 0 then MinusInfinity else if c < 0 then Infinity else NaN)
      | NaN \<Rightarrow> NaN)"

subsection \<open>The creation descriptor\<close>

record host_binding =
  HostIp :: string
  HostPort :: string

record mount =
  Source :: string
  Destination :: string
  RW :: bool

record host_config =
  Binds :: "string list"
  PortBindings :: "(string \<times> host_binding list) list"
  OomKillDisable :: bool
  CpuQuota :: number
  CpuPeriod :: int
  Memory :: number
  MemorySwap :: number
  BlkioWeight :: int
  Dns :: "string list"

record create_options =
  Image :: string
  Hostname :: string
  User :: string
  AttachStdin :: bool
  AttachStdout :: bool
  AttachStderr :: bool
  OpenStdin :: bool
  Tty :: bool
  Mounts :: "mount list"
  Env :: "string list"
  ExposedPorts :: "(string \<times> unit) list"
  HostConfig :: host_config

record container =
  cid :: string

record rebuild_result =
  res_id :: string
  res_image :: string

subsection \<open>The runtime client and the controller's state\<close>

text \<open>The calls issued to the container runtime and to the image helper, as issued.\<close>

datatype call =
  ContainerInspect | ContainerStart | ContainerStop | ContainerKill
  | ContainerPause | ContainerUnpause
  | ContainerExec "string list" | ExecStart
  | ContainerAttach | ContainerStats
  | ImageExists string | ImagePull string
  | CreateContainer create_options
  | ContainerRemove string

text \<open>
  What the runtime answers to each call, the daemon-wide \<^verbatim>\<open>docker.autoupdate_images\<close>
  setting, and two functions of the language itself: \<^verbatim>\<open>JSON.parse\<close> (\<open>None\<close> when it
  throws) and the conversion of a number to a string, which \<^verbatim>\<open>Util.format('%s')\<close> and
  \<^verbatim>\<open>toString\<close> apply to the configured numbers.
\<close>

record runtime =
  inspect_result :: "error + inspect_data"
  start_result :: "error option"
  stop_result :: "error option"
  kill_result :: "error option"
  pause_result :: "error option"
  unpause_result :: "error option"
  exec_result :: "error option"
  exec_start_result :: "error option \<times> jsstream option"
  attach_result :: "error + jsstream"
  stats_result :: "error + jsstream"
  autoupdate_images :: bool
  image_exists_result :: "error option"
  image_pull_result :: "error option"
  create_result :: "error + container"
  remove_result :: "error option"
  JSON_parse :: "string \<Rightarrow> json option"
  number_toString :: "int \<Rightarrow> string"

text \<open>
  The fields of a \<^verbatim>\<open>Docker\<close> object, \<open>None\<close> for \<^verbatim>\<open>undefined\<close>. \<open>calls\<close> records the
  runtime calls in the order issued, \<open>info_log\<close> the lines given to \<^verbatim>\<open>Log.info\<close>, and
  \<open>exec_streams\<close> the streams of \<^verbatim>\<open>exec\<close> that have not ended: the controller keeps no
  reference to them, only their handlers do.
\<close>

record docker =
  server :: server
  containerID :: string
  stream :: "jsstream option"
  procStream :: "jsstream option"
  procData :: "json option"
  exec_streams :: "jsstream list"
  calls :: "call list"
  info_log :: "string list"

definition issue :: "call \<Rightarrow> docker \<Rightarrow> docker" where
  "issue c st = st\<lparr>calls := calls st @ [c]\<rparr>"

text \<open>The descriptors of the creation calls among the calls issued, in order.\<close>

fun descriptors :: "call list \<Rightarrow> create_options list" where
  "descriptors [] = []"
| "descriptors (CreateContainer d # cs) = d # descriptors cs"
| "descriptors (_ # cs) = descriptors cs"

text \<open>
  \<^verbatim>\<open>isStream\<close> and \<^verbatim>\<open>isStream.isWritable\<close> of the package isstream. The only values the
  controller stores in \<^verbatim>\<open>this.stream\<close> are \<^verbatim>\<open>undefined\<close> and the stream the runtime
  client hands to the callback of \<^verbatim>\<open>container.attach\<close>.
\<close>

definition isStream :: "jsstream option \<Rightarrow> bool" where
  "isStream s = (case s of None \<Rightarrow> False | Some _ \<Rightarrow> True)"

definition isWritable :: "jsstream option \<Rightarrow> bool" where
  "isWritable s = (case s of None \<Rightarrow> False | Some x \<Rightarrow> writable x)"

definition setEncoding :: "string \<Rightarrow> jsstream \<Rightarrow> jsstream" where
  "setEncoding e s = s\<lparr>encoding := Some e\<rparr>"

definition SessionBusy :: error where
  "SessionBusy = Error ''An active stream is already in use for this container.''"

definition NoActiveStream :: error where
  "NoActiveStream = Error ''No writable stream was detected.''"

subsection \<open>Lifecycle operations\<close>

text \<open>\<^verbatim>\<open>err.message.indexOf(s)\<close>: the index of the first occurrence of \<open>s\<close>, or \<open>-1\<close>.\<close>

fun startsWith :: "string \<Rightarrow> string \<Rightarrow> bool" where
  "startsWith _ [] = True"
| "startsWith [] (_ # _) = False"
| "startsWith (c # cs) (p # ps) = (c = p \<and> startsWith cs ps)"

fun indexOf_from :: "int \<Rightarrow> string \<Rightarrow> string \<Rightarrow> int" where
  "indexOf_from i [] s = (if s = [] then i else - 1)"
| "indexOf_from i (c # cs) s =
     (if startsWith (c # cs) s then i else indexOf_from (i + 1) cs s)"

definition indexOf :: "string \<Rightarrow> string \<Rightarrow> int" where
  "indexOf m s = indexOf_from 0 m s"

definition already_started :: string where
  "already_started = ''HTTP code is 304 which indicates error: container already started''"

definition inspect :: "runtime \<Rightarrow> docker \<Rightarrow> (error + inspect_data) \<times> docker" where
  "inspect rt st = (inspect_result rt, issue ContainerInspect st)"

definition start :: "runtime \<Rightarrow> docker \<Rightarrow> unit callback \<times> docker" where
  "start rt st =
     (let st1 = issue ContainerStart st in
      case start_result rt of
        Some err \<Rightarrow>
          if indexOf (message err) already_started > - 1
          then (Called None None, st1\<lparr>server := setStatus ON (server st1)\<rparr>)
          else (Called (Some err) None, st1)
      | None \<Rightarrow> (Called None None, st1\<lparr>server := setStatus STARTING (server st1)\<rparr>))"

definition stop :: "runtime \<Rightarrow> docker \<Rightarrow> unit callback \<times> docker" where
  "stop rt st = (Called (stop_result rt) None, issue ContainerStop st)"

definition kill :: "runtime \<Rightarrow> docker \<Rightarrow> unit callback \<times> docker" where
  "kill rt st = (Called (kill_result rt) None, issue ContainerKill st)"

definition pause :: "runtime \<Rightarrow> docker \<Rightarrow> unit callback \<times> docker" where
  "pause rt st = (Called (pause_result rt) None, issue ContainerPause st)"

definition unpause :: "runtime \<Rightarrow> docker \<Rightarrow> unit callback \<times> docker" where
  "unpause rt st = (Called (unpause_result rt) None, issue ContainerUnpause st)"

subsection \<open>Sessions: exec, write, attach\<close>

text \<open>
  \<^verbatim>\<open>exec\<close> invokes its callback on the busy check, on a failed \<^verbatim>\<open>container.exec\<close> and
  when \<^verbatim>\<open>exec.start\<close> gives an error or no stream; when the stream opens it registers
  the two handlers and returns without invoking it.
\<close>

definition exec :: "string list \<Rightarrow> runtime \<Rightarrow> docker \<Rightarrow> unit callback \<times> docker" where
  "exec command rt st =
     (if isStream (stream st) then (Called (Some SessionBusy) None, st)
      else
        let st1 = issue (ContainerExec command) st in
        case exec_result rt of
          Some err \<Rightarrow> (Called (Some err) None, st1)
        | None \<Rightarrow>
            let st2 = issue ExecStart st1 in
            (case exec_start_result rt of
               (None, Some s) \<Rightarrow>
                 (NotCalled, st2\<lparr>exec_streams := exec_streams st2 @ [setEncoding ''utf8'' s]\<rparr>)
             | (execErr, _) \<Rightarrow> (Called execErr None, st2)))"

definition dockerExecStreamData :: "string \<Rightarrow> docker \<Rightarrow> docker" where
  "dockerExecStreamData d st = st\<lparr>server := server_output d (server st)\<rparr>"

definition dockerExecStreamEnd :: "nat \<Rightarrow> docker \<Rightarrow> docker" where
  "dockerExecStreamEnd i st =
     st\<lparr>server := streamClosed (server st),
        exec_streams := filter (\<lambda>s. stream_id s \<noteq> i) (exec_streams st)\<rparr>"

text \<open>The method \<^verbatim>\<open>write\<close>; \<open>CHR 0x0A\<close> is the newline character.\<close>

definition write_stdin :: "string \<Rightarrow> docker \<Rightarrow> unit callback \<times> docker" where
  "write_stdin command st =
     (if isWritable (stream st)
      then (Called None None,
            st\<lparr>stream := map_option (\<lambda>s. s\<lparr>written := written s @ [command @ [CHR 0x0A]]\<rparr>)
                            (stream st)\<rparr>)
      else (Called (Some NoActiveStream) None, st))"

text \<open>
  Telemetry. The data handler runs inside \<^verbatim>\<open>try\<close> with an empty \<^verbatim>\<open>catch\<close>: its result
  is \<open>Inr\<close> of the new state when it ends normally and would be \<open>Inl\<close> of the error
  if one escaped.
\<close>

definition dockerTopStreamData :: "runtime \<Rightarrow> chunk \<Rightarrow> docker \<Rightarrow> error + docker" where
  "dockerTopStreamData rt d st =
     (case d of
        Object v \<Rightarrow> Inr (st\<lparr>procData := Some v\<rparr>)
      | Text t \<Rightarrow>
          (case JSON_parse rt t of
             Some v \<Rightarrow> Inr (st\<lparr>procData := Some v\<rparr>)
           | None \<Rightarrow> Inr st))"

definition dockerTopSteamEnd :: "docker \<Rightarrow> docker" where
  "dockerTopSteamEnd st = st\<lparr>procStream := None, procData := None\<rparr>"

definition stats :: "runtime \<Rightarrow> docker \<Rightarrow> unit callback \<times> docker" where
  "stats rt st =
     (let st1 = issue ContainerStats st in
      case stats_result rt of
        Inl err \<Rightarrow> (Called (Some err) None, st1)
      | Inr s \<Rightarrow> (Called None None, st1\<lparr>procStream := Some (setEncoding ''utf8'' s)\<rparr>))"

definition dockerAttachStreamData :: "string \<Rightarrow> docker \<Rightarrow> docker" where
  "dockerAttachStreamData d st = st\<lparr>server := server_output d (server st)\<rparr>"

definition dockerAttachStreamEnd :: "docker \<Rightarrow> docker" where
  "dockerAttachStreamEnd st = st\<lparr>stream := None, server := streamClosed (server st)\<rparr>"

definition attach :: "runtime \<Rightarrow> docker \<Rightarrow> unit callback \<times> docker" where
  "attach rt st =
     (if stream st \<noteq> None \<or> isStream (stream st)
      then (Called (Some SessionBusy) None, st)
      else
        let st1 = issue ContainerAttach st in
        case attach_result rt of
          Inl err \<Rightarrow> (Called (Some err) None, st1)
        | Inr s \<Rightarrow> stats rt (st1\<lparr>stream := Some (setEncoding ''utf8'' s)\<rparr>))"

subsection \<open>Reconciliation\<close>

definition reattach :: "runtime \<Rightarrow> docker \<Rightarrow> bool callback \<times> docker" where
  "reattach rt st =
     (case inspect rt st of
        (Inl err, st1) \<Rightarrow> (Called (Some err) None, st1)
      | (Inr d, st1) \<Rightarrow>
          if Running d \<noteq> Undefined \<and> Running d \<noteq> Bool False
          then
            (case attach rt (st1\<lparr>server := setStatus ON (server st1)\<rparr>) of
               (Called attachErr _, st2) \<Rightarrow> (Called attachErr (Some (attachErr = None)), st2)
             | (NotCalled, st2) \<Rightarrow> (NotCalled, st2))
          else (Called None None, st1))"

definition constructor :: "server \<Rightarrow> runtime \<Rightarrow> bool callback \<times> docker" where
  "constructor srv rt =
     reattach rt
       \<lparr>server = srv, containerID = container_id srv, stream = None, procStream = None,
        procData = None, exec_streams = [], calls = [], info_log = []\<rparr>"

subsection \<open>Rebuild\<close>

definition log_info :: "string \<Rightarrow> docker \<Rightarrow> docker" where
  "log_info m st = st\<lparr>info_log := info_log st @ [m]\<rparr>"

text \<open>Phase 1: the first task of \<^verbatim>\<open>Async.series\<close>; its result is the error it reports.\<close>

definition image_phase :: "runtime \<Rightarrow> build_config \<Rightarrow> docker \<Rightarrow> error option \<times> docker" where
  "image_phase rt config st =
     (if autoupdate_images rt = False then
        let st1 = issue (ImageExists (image_cfg config)) st in
        case image_exists_result rt of
          None \<Rightarrow> (None, st1)
        | Some _ \<Rightarrow>
            let st2 = log_info (''Pulling image '' @ image_cfg config
                                @ '' because it doesn'' @ [CHR 0x27]
                                @ ''t exist on the system.'') st1;
                st3 = issue (ImagePull (image_cfg config)) st2
            in (image_pull_result rt, st3)
      else
        let st1 = log_info (''Checking if we need to update image '' @ image_cfg config
                            @ '', if so it will happen now.'') st;
            st2 = issue (ImagePull (image_cfg config)) st1
        in (image_pull_result rt, st2))"

text \<open>
  Phase 2. \<^verbatim>\<open>/^\d{1,6}$/.test(port)\<close>: the whole string is between one and six
  characters, each a decimal digit.
\<close>

definition is_digit :: "char \<Rightarrow> bool" where
  "is_digit c = (c \<in> set ''0123456789'')"

definition valid_port :: "string \<Rightarrow> bool" where
  "valid_port port = (1 \<le> length port \<and> length port \<le> 6 \<and> list_all is_digit port)"

type_synonym port_maps = "(string \<times> host_binding list) list \<times> (string \<times> unit) list"

text \<open>The iteratee of \<^verbatim>\<open>Async.each(ports, ...)\<close>, on the pair (\<open>bindings\<close>, \<open>exposed\<close>).\<close>

definition bind_port :: "string \<Rightarrow> string \<Rightarrow> port_maps \<Rightarrow> port_maps" where
  "bind_port ip port be =
     (if \<not> valid_port port then be
      else
        (AList.update (port @ ''/udp'') [\<lparr>HostIp = ip, HostPort = port\<rparr>]
           (AList.update (port @ ''/tcp'') [\<lparr>HostIp = ip, HostPort = port\<rparr>] (fst be)),
         AList.update (port @ ''/udp'') ()
           (AList.update (port @ ''/tcp'') () (snd be))))"

text \<open>The iteratee of \<^verbatim>\<open>Async.forEachOf(config.ports, ...)\<close>.\<close>

definition bind_ip :: "string \<times> ports_value \<Rightarrow> port_maps \<Rightarrow> port_maps" where
  "bind_ip entry be =
     (case snd entry of
        NotArray \<Rightarrow> be
      | Array ps \<Rightarrow> fold (bind_port (fst entry)) ps be)"

definition build_bindings :: "(string \<times> ports_value) list \<Rightarrow> port_maps" where
  "build_bindings ps = fold bind_ip ps ([], [])"

text \<open>
  Phase 3. \<open>show_int\<close> writes an integer in decimal, as JavaScript does for a magnitude
  below \<open>10^21\<close>; it serves as the number conversion of the concrete runtime below.
\<close>

definition digit_char :: "nat \<Rightarrow> char" where
  "digit_char n = ''0123456789'' ! (n mod 10)"

function show_nat :: "nat \<Rightarrow> string" where
  "show_nat n = (if n < 10 then [digit_char n] else show_nat (n div 10) @ [digit_char n])"
  by pat_completeness auto
termination
  by (relation "measure id") auto

declare show_nat.simps [simp del]

definition show_int :: "int \<Rightarrow> string" where
  "show_int i = (if i < 0 then ''-'' @ show_nat (nat (- i)) else show_nat (nat i))"

definition add_env :: "runtime \<Rightarrow> build_config \<Rightarrow> build_config" where
  "add_env rt config =
     config\<lparr>env :=
       AList.update ''SERVER_PORT'' (number_toString rt (default_port config))
         (AList.update ''SERVER_IP'' (default_ip config)
            (AList.update ''SERVER_MEMORY'' (number_toString rt (memory config)) (env config)))\<rparr>"

definition environment :: "build_config \<Rightarrow> string list" where
  "environment config = map (\<lambda>kv. fst kv @ ''='' @ snd kv) (env config)"

definition swapSpace :: "build_config \<Rightarrow> number" where
  "swapSpace config =
     (if swap config < 0 then Finite (- 1)
      else if swap config > 0 \<and> memory config > 0
           then js_times (js_add (memory config) (swap config)) 1000000
           else Finite 0)"

definition descriptor :: "runtime \<Rightarrow> build_config \<Rightarrow> string \<Rightarrow> port_maps \<Rightarrow> create_options" where
  "descriptor rt config dir be =
     \<lparr>Image = image_cfg config,
      Hostname = ''container'',
      User = number_toString rt (user config),
      AttachStdin = True, AttachStdout = True, AttachStderr = True,
      OpenStdin = True, Tty = True,
      Mounts = [\<lparr>Source = dir, Destination = ''/home/container'', RW = True\<rparr>],
      Env = environment config,
      ExposedPorts = snd be,
      HostConfig =
        \<lparr>Binds = [dir @ '':/home/container''],
         PortBindings = fst be,
         OomKillDisable = (case oom_disabled config of None \<Rightarrow> False | Some b \<Rightarrow> b),
         CpuQuota = (if cpu config > 0 then js_times (Finite (cpu config)) 1000 else Finite (- 1)),
         CpuPeriod = (if cpu config > 0 then 100000 else 0),
         Memory = js_times (Finite (memory config)) 1000000,
         MemorySwap = swapSpace config,
         BlkioWeight = io config,
         Dns = [''8.8.8.8'', ''8.8.4.4'']\<rparr>\<rparr>"

definition create_phase :: "runtime \<Rightarrow> port_maps \<Rightarrow> docker \<Rightarrow> (error + container) \<times> docker" where
  "create_phase rt be st =
     (let srv1 = log_debug ''Creating new container...'' (server st);
          config = add_env rt (build srv1);
          st1 = st\<lparr>server := srv1\<lparr>build := config\<rparr>\<rparr>
      in (create_result rt, issue (CreateContainer (descriptor rt config (path srv1) be)) st1))"

text \<open>
  The three tasks in series, then the final callback: the first error ends the run;
  otherwise the controller's own container is removed and \<^verbatim>\<open>next\<close> receives the outcome
  of the removal together with the new container's id and the image.
\<close>

definition rebuild :: "runtime \<Rightarrow> docker \<Rightarrow> rebuild_result callback \<times> docker" where
  "rebuild rt st =
     (case image_phase rt (build (server st)) st of
        (Some err, st1) \<Rightarrow> (Called (Some err) None, st1)
      | (None, st1) \<Rightarrow>
          (case create_phase rt (build_bindings (ports (build (server st1)))) st1 of
             (Inl err, st2) \<Rightarrow> (Called (Some err) None, st2)
           | (Inr c, st2) \<Rightarrow>
               let st3 = st2\<lparr>server := log_debug ''Removing old server container...''
                                          (server st2)\<rparr>;
                   st4 = issue (ContainerRemove (containerID st3)) st3
               in (Called (remove_result rt)
                     (Some \<lparr>res_id = cid c, res_image = image_cfg (build (server st4))\<rparr>),
                   st4)))"

subsection \<open>The controller as a transition system\<close>

text \<open>
  Everything that can change a controller: a call of one of its methods, or an event on
  one of the streams it has put handlers on.
\<close>

datatype operation =
  Reattach | Start | Stop | Kill | Pause | Unpause
  | Exec "string list" | Write string | Attach | Stats | Rebuild
  | AttachData string | AttachEnd
  | ExecData string | ExecEnd nat
  | TelemetryData chunk | TelemetryEnd

definition step :: "runtime \<Rightarrow> operation \<Rightarrow> docker \<Rightarrow> docker" where
  "step rt op st =
     (case op of
        Reattach \<Rightarrow> snd (reattach rt st)
      | Start \<Rightarrow> snd (start rt st)
      | Stop \<Rightarrow> snd (stop rt st)
      | Kill \<Rightarrow> snd (kill rt st)
      | Pause \<Rightarrow> snd (pause rt st)
      | Unpause \<Rightarrow> snd (unpause rt st)
      | Exec command \<Rightarrow> snd (exec command rt st)
      | Write command \<Rightarrow> snd (write_stdin command st)
      | Attach \<Rightarrow> snd (attach rt st)
      | Stats \<Rightarrow> snd (stats rt st)
      | Rebuild \<Rightarrow> snd (rebuild rt st)
      | AttachData d \<Rightarrow> dockerAttachStreamData d st
      | AttachEnd \<Rightarrow> dockerAttachStreamEnd st
      | ExecData d \<Rightarrow> dockerExecStreamData d st
      | ExecEnd i \<Rightarrow> dockerExecStreamEnd i st
      | TelemetryData d \<Rightarrow> (case dockerTopStreamData rt d st of Inr st' \<Rightarrow> st' | Inl _ \<Rightarrow> st)
      | TelemetryEnd \<Rightarrow> dockerTopSteamEnd st)"

subsection \<open>A concrete server, controller and runtime\<close>

definition example_config :: build_config where
  "example_config =
     \<lparr>image_cfg = ''quay.io/pterodactyl/minecraft'',
      env = [(''JARFILE'', ''server.jar'')],
      ports = [(''10.0.0.1'', Array [''25565'', ''abc'']), (''10.0.0.2'', Array [''25565''])],
      memory = 512, swap = 256, cpu = 50, io = 500, oom_disabled = None, user = 1000,
      default_ip = ''10.0.0.1'', default_port = 25565\<rparr>"

text \<open>The same configuration with a memory of \<open>2^53\<close> megabytes and a swap of one.\<close>

definition example_huge :: build_config where
  "example_huge = example_config\<lparr>memory := 9007199254740992, swap := 1\<rparr>"

definition example_server :: server where
  "example_server =
     \<lparr>container_id = ''c0ffee'', build = example_config, path = ''/srv/data/s1'',
      status = OFF, output_log = [], closed_count = 0, debug_log = []\<rparr>"

text \<open>A controller with no stream open, and one attached to a writable stream.\<close>

definition example_docker :: docker where
  "example_docker =
     \<lparr>server = example_server, containerID = ''c0ffee'', stream = None, procStream = None,
      procData = None, exec_streams = [], calls = [], info_log = []\<rparr>"

definition example_stream :: "nat \<Rightarrow> jsstream" where
  "example_stream i = \<lparr>stream_id = i, writable = True, encoding = None, written = []\<rparr>"

definition example_attached :: docker where
  "example_attached =
     example_docker\<lparr>stream := Some (example_stream 1), procStream := Some (example_stream 2),
                    procData := Some (JObject [(''read'', JString ''2016-01-01'')])\<rparr>"

text \<open>
  A runtime in which every call succeeds, the container runs, only the text \<open>{}\<close>
  decodes, and numbers are written in decimal.
\<close>

definition example_runtime :: runtime where
  "example_runtime =
     \<lparr>inspect_result = Inr \<lparr>Running = Bool True\<rparr>,
      start_result = None, stop_result = None, kill_result = None,
      pause_result = None, unpause_result = None,
      exec_result = None, exec_start_result = (None, Some (example_stream 3)),
      attach_result = Inr (example_stream 1), stats_result = Inr (example_stream 2),
      autoupdate_images = False, image_exists_result = None, image_pull_result = None,
      create_result = Inr \<lparr>cid = ''decaf0''\<rparr>, remove_result = None,
      JSON_parse = (\<lambda>t. if t = ''{}'' then Some (JObject []) else None),
      number_toString = show_int\<rparr>"

section \<open>Properties\<close>

subsection \<open>Searching a message\<close>

lemma startsWith_iff: "startsWith m s \<longleftrightarrow> (\<exists>post. m = s @ post)"
  by (induction m s rule: startsWith.induct) auto

lemma contains_Cons:
  "(\<exists>pre post. c # cs = pre @ s @ post) \<longleftrightarrow>
     startsWith (c # cs) s \<or> (\<exists>pre post. cs = pre @ s @ post)"
proof
  assume "\<exists>pre post. c # cs = pre @ s @ post"
  then obtain pre post where e: "c # cs = pre @ s @ post" by blast
  show "startsWith (c # cs) s \<or> (\<exists>pre post. cs = pre @ s @ post)"
  proof (cases pre)
    case Nil
    with e show ?thesis by (auto simp: startsWith_iff)
  next
    case (Cons a pre')
    with e have "cs = pre' @ s @ post" by simp
    then show ?thesis by blast
  qed
next
  assume "startsWith (c # cs) s \<or> (\<exists>pre post. cs = pre @ s @ post)"
  then show "\<exists>pre post. c # cs = pre @ s @ post"
  proof
    assume "startsWith (c # cs) s"
    then obtain post where "c # cs = [] @ s @ post" by (auto simp: startsWith_iff)
    then show ?thesis by blast
  next
    assume "\<exists>pre post. cs = pre @ s @ post"
    then obtain pre post where "cs = pre @ s @ post" by blast
    then have "c # cs = (c # pre) @ s @ post" by simp
    then show ?thesis by blast
  qed
qed

lemma indexOf_from_found:
  "0 \<le> i \<Longrightarrow> (indexOf_from i m s > - 1) \<longleftrightarrow> (\<exists>pre post. m = pre @ s @ post)"
proof (induction m arbitrary: i)
  case Nil
  then show ?case by auto
next
  case (Cons c cs)
  from Cons.prems have "0 \<le> i + 1" by simp
  from Cons.IH [OF this] Cons.prems show ?case
    by (simp only: indexOf_from.simps contains_Cons split: if_split) auto
qed

lemma indexOf_found: "(indexOf m s > - 1) \<longleftrightarrow> (\<exists>pre post. m = pre @ s @ post)"
  by (simp add: indexOf_def indexOf_from_found)

subsection \<open>Starting a container\<close>

text \<open>
  Claim C4. The runtime reports that the container is already started when the message
  of its error contains the text the code searches for. In that case \<open>start\<close> invokes
  its callback without an error and the status is ON; when the runtime call succeeds
  the callback receives no error and the status is STARTING; any other error is handed
  to the callback as it is and the server is left as it was.
\<close>

theorem C4_start:
  "(start_result rt = Some err \<and> (\<exists>pre post. message err = pre @ already_started @ post)
      \<longrightarrow> fst (start rt st) = Called None None
          \<and> status (server (snd (start rt st))) = ON)
   \<and> (start_result rt = None
      \<longrightarrow> fst (start rt st) = Called None None
          \<and> status (server (snd (start rt st))) = STARTING)
   \<and> (start_result rt = Some err \<and> \<not> (\<exists>pre post. message err = pre @ already_started @ post)
      \<longrightarrow> fst (start rt st) = Called (Some err) None
          \<and> server (snd (start rt st)) = server st)"
  by (simp add: start_def Let_def issue_def setStatus_def indexOf_found)

theorem C4_start_witness:
  "fst (start (example_runtime\<lparr>start_result := Some (Error
          ''(HTTP code 304) HTTP code is 304 which indicates error: container already started - '')\<rparr>)
        example_docker) = Called None None
   \<and> status (server (snd (start (example_runtime\<lparr>start_result := Some (Error
          ''(HTTP code 304) HTTP code is 304 which indicates error: container already started - '')\<rparr>)
        example_docker))) = ON
   \<and> fst (start example_runtime example_docker) = Called None None
   \<and> status (server (snd (start example_runtime example_docker))) = STARTING
   \<and> fst (start (example_runtime\<lparr>start_result := Some (Error ''no such container'')\<rparr>)
            example_docker) = Called (Some (Error ''no such container'')) None
   \<and> server (snd (start (example_runtime\<lparr>start_result := Some (Error ''no such container'')\<rparr>)
                   example_docker)) = server example_docker"
proof -
  let ?e1 = "Error ''(HTTP code 304) HTTP code is 304 which indicates error: container already started - ''"
  let ?e3 = "Error ''no such container''"
  have h1: "\<exists>pre post. message ?e1 = pre @ already_started @ post"
    unfolding indexOf_found [symmetric] by (simp add: indexOf_def already_started_def)
  have h3: "\<not> (\<exists>pre post. message ?e3 = pre @ already_started @ post)"
    unfolding indexOf_found [symmetric] by (simp add: indexOf_def already_started_def)
  have r2: "start_result example_runtime = None"
    by (simp add: example_runtime_def)
  show ?thesis
    using C4_start [of "example_runtime\<lparr>start_result := Some ?e1\<rparr>" ?e1 example_docker]
      C4_start [of example_runtime ?e1 example_docker]
      C4_start [of "example_runtime\<lparr>start_result := Some ?e3\<rparr>" ?e3 example_docker]
      h1 h3 r2
    by simp
qed

subsection \<open>Swap in the creation descriptor\<close>

lemma create_phase_calls:
  "calls (snd (create_phase rt be st)) =
     calls st @ [CreateContainer
       (descriptor rt (add_env rt (build (server st))) (path (server st)) be)]"
  by (simp add: create_phase_def Let_def issue_def log_debug_def)

lemma add_env_fields:
  "memory (add_env rt config) = memory config" "swap (add_env rt config) = swap config"
  "image_cfg (add_env rt config) = image_cfg config" "ports (add_env rt config) = ports config"
  by (simp_all add: add_env_def)

lemma expo_small: "a < 2 ^ 53 \<Longrightarrow> expo a = 0"
  by (simp add: expo.simps)

lemma round_double_exact:
  assumes "\<bar>x\<bar> \<le> 2 ^ 53"
  shows "round_double x = x"
proof (cases "\<bar>x\<bar> < 2 ^ 53")
  case True
  then have "expo \<bar>x\<bar> = 0" by (rule expo_small)
  then have "round_double x = sgn x * \<bar>x\<bar>"
    by (simp add: round_double_def)
  then show ?thesis by (simp add: sgn_mult_abs)
next
  case False
  with assms have a: "\<bar>x\<bar> = 9007199254740992" by simp
  have e: "expo 9007199254740992 = 1"
    by (simp add: expo.simps)
  have "round_double x = sgn x * 9007199254740992"
    by (simp add: round_double_def a e)
  also have "\<dots> = sgn x * \<bar>x\<bar>" by (simp add: a)
  finally show ?thesis by (simp add: sgn_mult_abs)
qed

lemma to_number_exact:
  assumes "\<bar>x\<bar> \<le> 2 ^ 53"
  shows "to_number x = Finite x"
proof -
  have "(2::int) ^ 53 < 2 ^ 1024"
    by (rule power_strict_increasing) simp_all
  with assms have "x < 2 ^ 1024" and "- (2 ^ 1024) < x"
    by linarith+
  then show ?thesis
    unfolding to_number_def round_double_exact [OF assms] Let_def
    by (simp only: not_le [symmetric] if_False)
qed

lemma swapSpace_exact:
  assumes "swap config > 0" and "memory config > 0"
    and "(memory config + swap config) * 1000000 \<le> 2 ^ 53"
  shows "swapSpace config = Finite ((memory config + swap config) * 1000000)"
proof -
  have s: "\<bar>memory config + swap config\<bar> \<le> 2 ^ 53"
    using assms by simp
  have p: "\<bar>(memory config + swap config) * 1000000\<bar> \<le> 2 ^ 53"
    using assms by simp
  show ?thesis
    using assms(1,2) to_number_exact [OF p]
    by (simp add: swapSpace_def js_add_def js_times_def to_number_exact [OF s])
qed

text \<open>
  Claim C8, as amended. Phase 3 issues one creation call, and the swap bytes of its
  descriptor are \<open>-1\<close> when the configured swap is negative; (memory + swap) times
  1,000,000 when swap and memory are both positive and that product is at most
  \<open>2^53\<close>, the range in which every integer is a double; and \<open>0\<close> when swap is not
  negative and swap and memory are not both positive.
\<close>

theorem C8_swap_bytes:
  "\<exists>d. calls (snd (create_phase rt be st)) = calls st @ [CreateContainer d]
      \<and> (swap (build (server st)) < 0 \<longrightarrow> MemorySwap (HostConfig d) = Finite (- 1))
      \<and> (swap (build (server st)) > 0 \<and> memory (build (server st)) > 0
          \<and> (memory (build (server st)) + swap (build (server st))) * 1000000 \<le> 2 ^ 53
          \<longrightarrow> MemorySwap (HostConfig d) =
                Finite ((memory (build (server st)) + swap (build (server st))) * 1000000))
      \<and> (\<not> swap (build (server st)) < 0
          \<and> \<not> (swap (build (server st)) > 0 \<and> memory (build (server st)) > 0)
          \<longrightarrow> MemorySwap (HostConfig d) = Finite 0)"
proof -
  let ?c = "add_env rt (build (server st))"
  let ?d = "descriptor rt ?c (path (server st)) be"
  have m: "MemorySwap (HostConfig ?d) = swapSpace ?c"
    by (simp add: descriptor_def)
  have f: "memory ?c = memory (build (server st))" "swap ?c = swap (build (server st))"
    by (simp_all add: add_env_fields)
  have 1: "swap (build (server st)) < 0 \<longrightarrow> MemorySwap (HostConfig ?d) = Finite (- 1)"
    by (simp add: m swapSpace_def f)
  have 2: "swap (build (server st)) > 0 \<and> memory (build (server st)) > 0
          \<and> (memory (build (server st)) + swap (build (server st))) * 1000000 \<le> 2 ^ 53
          \<longrightarrow> MemorySwap (HostConfig ?d) =
                Finite ((memory (build (server st)) + swap (build (server st))) * 1000000)"
    using swapSpace_exact [of ?c] by (simp only: m f) blast
  have 3: "\<not> swap (build (server st)) < 0
          \<and> \<not> (swap (build (server st)) > 0 \<and> memory (build (server st)) > 0)
          \<longrightarrow> MemorySwap (HostConfig ?d) = Finite 0"
    by (simp add: m swapSpace_def f)
  from 1 2 3 create_phase_calls [of rt be st] show ?thesis by blast
qed

theorem C8_swap_bytes_witness:
  "(\<exists>d. calls (snd (create_phase example_runtime ([], []) example_docker)) = [CreateContainer d]
      \<and> MemorySwap (HostConfig d) = Finite 768000000)
   \<and> (\<exists>d. calls (snd (create_phase example_runtime ([], [])
                (example_docker\<lparr>server := example_server\<lparr>build := example_config\<lparr>swap := 0\<rparr>\<rparr>\<rparr>)))
             = [CreateContainer d]
         \<and> MemorySwap (HostConfig d) = Finite 0)
   \<and> (\<exists>d. calls (snd (create_phase example_runtime ([], [])
                (example_docker\<lparr>server := example_server\<lparr>build :=
                   example_config\<lparr>swap := - 1, memory := 0\<rparr>\<rparr>\<rparr>)))
             = [CreateContainer d]
         \<and> MemorySwap (HostConfig d) = Finite (- 1))"
  using C8_swap_bytes [of example_runtime "([], [])" example_docker]
    C8_swap_bytes [of example_runtime "([], [])"
      "example_docker\<lparr>server := example_server\<lparr>build := example_config\<lparr>swap := 0\<rparr>\<rparr>\<rparr>"]
    C8_swap_bytes [of example_runtime "([], [])"
      "example_docker\<lparr>server := example_server\<lparr>build :=
         example_config\<lparr>swap := - 1, memory := 0\<rparr>\<rparr>\<rparr>"]
  by (simp add: example_docker_def example_server_def example_config_def)

text \<open>
  The claim as stated fails beyond that range: with a memory of \<open>2^53\<close> and a swap of
  \<open>1\<close> the sum is not a double and rounds to \<open>2^53\<close>, so the swap bytes of the
  descriptor are \<open>2^53\<close> times 1,000,000 and not (memory + swap) times 1,000,000.
\<close>

theorem C8_counterexample:
  "swap example_huge > 0 \<and> memory example_huge > 0
   \<and> calls (snd (create_phase example_runtime ([], [])
        (example_docker\<lparr>server := example_server\<lparr>build := example_huge\<rparr>\<rparr>)))
      = [CreateContainer (descriptor example_runtime (add_env example_runtime example_huge)
           ''/srv/data/s1'' ([], []))]
   \<and> MemorySwap (HostConfig (descriptor example_runtime (add_env example_runtime example_huge)
           ''/srv/data/s1'' ([], []))) = Finite 9007199254740992000000
   \<and> (memory example_huge + swap example_huge) * 1000000 = 9007199254740993000000
   \<and> MemorySwap (HostConfig (descriptor example_runtime (add_env example_runtime example_huge)
           ''/srv/data/s1'' ([], [])))
       \<noteq> Finite ((memory example_huge + swap example_huge) * 1000000)"
proof -
  have c: "calls (snd (create_phase example_runtime ([], [])
        (example_docker\<lparr>server := example_server\<lparr>build := example_huge\<rparr>\<rparr>)))
      = [CreateContainer (descriptor example_runtime (add_env example_runtime example_huge)
           ''/srv/data/s1'' ([], []))]"
    by (simp add: create_phase_calls example_docker_def example_server_def)
  have e1: "expo 9007199254740993 = 1" and e2: "expo 9007199254740992000000 = 20"
    by (simp_all add: expo.simps)
  have s: "js_add 9007199254740992 1 = Finite 9007199254740992"
    by (simp add: js_add_def to_number_def round_double_def e1 Let_def)
  have t: "js_times (Finite 9007199254740992) 1000000 = Finite 9007199254740992000000"
    by (simp add: js_times_def to_number_def round_double_def e2 Let_def)
  have m: "MemorySwap (HostConfig (descriptor example_runtime
        (add_env example_runtime example_huge) ''/srv/data/s1'' ([], [])))
      = Finite 9007199254740992000000"
    by (simp add: descriptor_def swapSpace_def add_env_fields example_huge_def s t)
  show ?thesis
    using c m by (simp add: example_huge_def)
qed

subsection \<open>Writing to the container's input\<close>

text \<open>
  Claim C6. When the controller holds no stream, or one that is not writable, \<open>write\<close>
  hands the NoActiveStream error to its callback and changes nothing. When it holds a
  writable stream, the one chunk written to it is the command followed by a single
  newline, nothing else changes, and the callback receives no error.
\<close>

theorem C6_write:
  "((\<forall>s. stream st = Some s \<longrightarrow> \<not> writable s)
      \<longrightarrow> write_stdin command st = (Called (Some NoActiveStream) None, st))
   \<and> (stream st = Some s \<and> writable s
      \<longrightarrow> write_stdin command st =
            (Called None None,
             st\<lparr>stream := Some (s\<lparr>written := written s @ [command @ [CHR 0x0A]]\<rparr>)\<rparr>))"
  by (cases "stream st") (auto simp: write_stdin_def isWritable_def)

theorem C6_write_witness:
  "write_stdin ''say hi'' example_docker = (Called (Some NoActiveStream) None, example_docker)
   \<and> fst (write_stdin ''say hi'' example_attached) = Called None None
   \<and> map_option written (stream (snd (write_stdin ''say hi'' example_attached)))
       = Some [''say hi'' @ [CHR 0x0A]]"
proof -
  have a: "\<forall>s. stream example_docker = Some s \<longrightarrow> \<not> writable s"
    by (simp add: example_docker_def)
  have b: "stream example_attached = Some (example_stream 1) \<and> writable (example_stream 1)"
    by (simp add: example_attached_def example_docker_def example_stream_def)
  show ?thesis
    using C6_write [where st = example_docker and s = "example_stream 1" and command = "''say hi''"]
      C6_write [where st = example_attached and s = "example_stream 1" and command = "''say hi''"]
      a b
    by (simp add: example_stream_def)
qed

subsection \<open>Exclusive use of the attach stream\<close>

lemma exec_free:
  "stream st = None \<Longrightarrow>
     calls (snd (exec command rt st)) =
       calls st @ ContainerExec command # (case exec_result rt of None \<Rightarrow> [ExecStart] | Some _ \<Rightarrow> [])
     \<and> stream (snd (exec command rt st)) = None"
  by (simp add: exec_def isStream_def Let_def issue_def split: option.splits prod.splits)

lemma exec_opened:
  "stream st = None \<Longrightarrow> exec_result rt = None \<Longrightarrow> exec_start_result rt = (None, Some s) \<Longrightarrow>
     fst (exec command rt st) = NotCalled
     \<and> exec_streams (snd (exec command rt st)) = exec_streams st @ [setEncoding ''utf8'' s]"
  by (simp add: exec_def isStream_def Let_def issue_def)

text \<open>
  Claim C3. While the controller holds a stream reference, \<open>attach\<close> and \<open>exec\<close> both
  hand the SessionBusy error to their callback and leave the state as it is: no call
  reaches the runtime, so no stream is opened. While it holds none, \<open>exec\<close> issues its
  call to the runtime whatever streams of earlier \<open>exec\<close> calls are still open, and
  when the runtime opens a stream for it that stream joins them.
\<close>

theorem C3_session_busy:
  "(stream st = Some s
      \<longrightarrow> attach rt st = (Called (Some SessionBusy) None, st)
          \<and> exec command rt st = (Called (Some SessionBusy) None, st))
   \<and> (stream st = None
      \<longrightarrow> calls (snd (exec command rt st)) =
            calls st @ ContainerExec command
              # (case exec_result rt of None \<Rightarrow> [ExecStart] | Some _ \<Rightarrow> [])
          \<and> (exec_result rt = None \<and> exec_start_result rt = (None, Some s')
              \<longrightarrow> exec_streams (snd (exec command rt st))
                    = exec_streams st @ [setEncoding ''utf8'' s']))"
  using exec_free [of st command rt] exec_opened [of st rt s' command]
  by (simp add: attach_def exec_def isStream_def)

theorem C3_session_busy_witness:
  "attach example_runtime example_attached = (Called (Some SessionBusy) None, example_attached)
   \<and> exec [''ls''] example_runtime example_attached
       = (Called (Some SessionBusy) None, example_attached)
   \<and> exec_streams (snd (exec [''ls''] example_runtime example_docker)) \<noteq> []
   \<and> calls (snd (exec [''top''] (example_runtime\<lparr>exec_start_result := (None, Some (example_stream 4))\<rparr>)
                  (snd (exec [''ls''] example_runtime example_docker))))
       = [ContainerExec [''ls''], ExecStart, ContainerExec [''top''], ExecStart]
   \<and> map stream_id (exec_streams
        (snd (exec [''top''] (example_runtime\<lparr>exec_start_result := (None, Some (example_stream 4))\<rparr>)
                (snd (exec [''ls''] example_runtime example_docker)))))
       = [3, 4]"
proof -
  let ?st1 = "snd (exec [''ls''] example_runtime example_docker)"
  have a: "stream example_attached = Some (example_stream 1)"
    by (simp add: example_attached_def example_docker_def)
  have b: "stream example_docker = None" "calls example_docker = []"
    "exec_streams example_docker = []"
    by (simp_all add: example_docker_def)
  have r: "exec_result example_runtime = None"
    "exec_start_result example_runtime = (None, Some (example_stream 3))"
    by (simp_all add: example_runtime_def)
  have first: "calls ?st1 = [ContainerExec [''ls''], ExecStart]
      \<and> exec_streams ?st1 = [setEncoding ''utf8'' (example_stream 3)]"
    using C3_session_busy [where st = example_docker and rt = example_runtime
        and command = "[''ls'']" and s' = "example_stream 3"] b r
    by simp
  have c: "stream ?st1 = None"
    using exec_free [of example_docker "[''ls'']" example_runtime] b by simp
  let ?rt2 = "example_runtime\<lparr>exec_start_result := (None, Some (example_stream 4))\<rparr>"
  have second: "calls (snd (exec [''top''] ?rt2 ?st1))
        = [ContainerExec [''ls''], ExecStart, ContainerExec [''top''], ExecStart]
      \<and> exec_streams (snd (exec [''top''] ?rt2 ?st1))
        = [setEncoding ''utf8'' (example_stream 3), setEncoding ''utf8'' (example_stream 4)]"
    using C3_session_busy [where st = ?st1 and rt = ?rt2
        and command = "[''top'']" and s' = "example_stream 4"] c r first
    by simp
  show ?thesis
    using C3_session_busy [where st = example_attached and rt = example_runtime
        and command = "[''ls'']" and s = "example_stream 1"] a first second
    by (simp add: setEncoding_def example_stream_def)
qed

subsection \<open>Attaching, and the end of the attached stream\<close>

lemma stats_effect:
  "calls (snd (stats rt st)) = calls st @ [ContainerStats]"
  "server (snd (stats rt st)) = server st"
  "stream (snd (stats rt st)) = stream st"
  "procData (snd (stats rt st)) = procData st"
  "procStream (snd (stats rt st)) =
     (case stats_result rt of Inl _ \<Rightarrow> procStream st | Inr s \<Rightarrow> Some (setEncoding ''utf8'' s))"
  "\<exists>e. fst (stats rt st) = Called e None"
  by (simp_all add: stats_def Let_def issue_def split: sum.splits)

lemma attach_free:
  "stream st = None \<Longrightarrow>
     attach rt st =
       (case attach_result rt of
          Inl err \<Rightarrow> (Called (Some err) None, issue ContainerAttach st)
        | Inr s \<Rightarrow> stats rt ((issue ContainerAttach st)\<lparr>stream := Some (setEncoding ''utf8'' s)\<rparr>))"
  by (simp add: attach_def isStream_def Let_def)

lemma attach_effect:
  "server (snd (attach rt st)) = server st"
  "procData (snd (attach rt st)) = procData st"
  "procStream (snd (attach rt st)) = None \<longrightarrow> procStream st = None"
  "\<exists>e. fst (attach rt st) = Called e None"
  "stream st = None \<Longrightarrow> take (Suc (length (calls st))) (calls (snd (attach rt st)))
      = calls st @ [ContainerAttach]"
  by (simp_all add: attach_def isStream_def Let_def stats_effect issue_def SessionBusy_def
      split: sum.splits)

lemma attach_success:
  assumes "fst (attach rt st) = Called None None"
  shows "stream st = None" and "\<exists>s. attach_result rt = Inr s"
    and "calls (snd (attach rt st)) = calls st @ [ContainerAttach, ContainerStats]"
    and "stream (snd (attach rt st)) \<noteq> None"
proof -
  show n: "stream st = None"
    using assms by (cases "stream st") (simp_all add: attach_def isStream_def)
  show r: "\<exists>s. attach_result rt = Inr s"
    using assms n by (cases "attach_result rt") (simp_all add: attach_free)
  then obtain s where s: "attach_result rt = Inr s" by blast
  show "calls (snd (attach rt st)) = calls st @ [ContainerAttach, ContainerStats]"
    by (simp add: attach_free n s stats_effect issue_def)
  show "stream (snd (attach rt st)) \<noteq> None"
    by (simp add: attach_free n s stats_effect)
qed

text \<open>
  Claim C2, as amended. After an \<open>attach\<close> that reported success, the end of the
  attached stream clears the stored stream reference and notifies the server once that
  the stream closed, and does nothing else: it issues no call to the runtime and leaves
  the telemetry stream as it is. The call that starts telemetry was issued by \<open>attach\<close>
  itself, right after the call that opened the stream.
\<close>

theorem C2_attach_stream_end:
  assumes "fst (attach rt st) = Called None None"
  shows "calls (snd (attach rt st)) = calls st @ [ContainerAttach, ContainerStats]
    \<and> stream (snd (attach rt st)) \<noteq> None
    \<and> stream (dockerAttachStreamEnd (snd (attach rt st))) = None
    \<and> closed_count (server (dockerAttachStreamEnd (snd (attach rt st))))
        = Suc (closed_count (server (snd (attach rt st))))
    \<and> calls (dockerAttachStreamEnd (snd (attach rt st))) = calls (snd (attach rt st))
    \<and> procStream (dockerAttachStreamEnd (snd (attach rt st))) = procStream (snd (attach rt st))
    \<and> procData (dockerAttachStreamEnd (snd (attach rt st))) = procData (snd (attach rt st))"
  using attach_success [OF assms]
  by (simp add: dockerAttachStreamEnd_def streamClosed_def)

lemma example_attach:
  "fst (attach example_runtime example_docker) = Called None None"
  by (simp add: attach_def stats_def isStream_def Let_def issue_def example_docker_def
      example_runtime_def)

theorem C2_attach_stream_end_witness:
  "fst (attach example_runtime example_docker) = Called None None
   \<and> stream (dockerAttachStreamEnd (snd (attach example_runtime example_docker))) = None
   \<and> closed_count (server (dockerAttachStreamEnd (snd (attach example_runtime example_docker)))) = 1
   \<and> calls (dockerAttachStreamEnd (snd (attach example_runtime example_docker)))
       = [ContainerAttach, ContainerStats]"
  using C2_attach_stream_end [OF example_attach] example_attach
  by (simp add: attach_effect example_docker_def example_server_def)

text \<open>
  The claim as stated fails: in the run below \<open>attach\<close> succeeds, and the end of its
  stream adds no call to the two that \<open>attach\<close> issued, so no telemetry is started at
  that moment.
\<close>

theorem C2_counterexample:
  "fst (attach example_runtime example_docker) = Called None None
   \<and> calls (snd (attach example_runtime example_docker)) = [ContainerAttach, ContainerStats]
   \<and> calls (dockerAttachStreamEnd (snd (attach example_runtime example_docker)))
       = [ContainerAttach, ContainerStats]
   \<and> ContainerStats \<notin> set (drop (length (calls (snd (attach example_runtime example_docker))))
        (calls (dockerAttachStreamEnd (snd (attach example_runtime example_docker)))))"
  by (simp add: attach_def stats_def isStream_def Let_def issue_def example_docker_def
      example_runtime_def dockerAttachStreamEnd_def)

subsection \<open>Reconciliation at construction\<close>

lemma constructor_unfold:
  "constructor srv rt =
     (case inspect_result rt of
        Inl err \<Rightarrow>
          (Called (Some err) None,
           \<lparr>server = srv, containerID = container_id srv, stream = None, procStream = None,
            procData = None, exec_streams = [], calls = [ContainerInspect], info_log = []\<rparr>)
      | Inr d \<Rightarrow>
          if Running d \<noteq> Undefined \<and> Running d \<noteq> Bool False
          then
            (case attach rt
                    \<lparr>server = setStatus ON srv, containerID = container_id srv, stream = None,
                     procStream = None, procData = None, exec_streams = [],
                     calls = [ContainerInspect], info_log = []\<rparr> of
               (Called attachErr _, st2) \<Rightarrow> (Called attachErr (Some (attachErr = None)), st2)
             | (NotCalled, st2) \<Rightarrow> (NotCalled, st2))
          else
            (Called None None,
             \<lparr>server = srv, containerID = container_id srv, stream = None, procStream = None,
              procData = None, exec_streams = [], calls = [ContainerInspect], info_log = []\<rparr>))"
  by (simp add: constructor_def reattach_def inspect_def issue_def split: sum.splits)

lemma constructor_running:
  assumes "inspect_result rt = Inr d" and "Running d \<noteq> Undefined" and "Running d \<noteq> Bool False"
  shows "status (server (snd (constructor srv rt))) = ON"
    and "take 2 (calls (snd (constructor srv rt))) = [ContainerInspect, ContainerAttach]"
    and "\<exists>e. fst (constructor srv rt) = Called e (Some (e = None))"
proof -
  let ?st = "\<lparr>server = setStatus ON srv, containerID = container_id srv, stream = None,
     procStream = None, procData = None, exec_streams = [],
     calls = [ContainerInspect], info_log = []\<rparr>"
  obtain e where e: "fst (attach rt ?st) = Called e None"
    using attach_effect(4) [of rt ?st] by blast
  have c: "constructor srv rt = (Called e (Some (e = None)), snd (attach rt ?st))"
    using assms e by (cases "attach rt ?st") (simp add: constructor_unfold)
  show "status (server (snd (constructor srv rt))) = ON"
    by (simp add: c attach_effect(1) setStatus_def)
  show "take 2 (calls (snd (constructor srv rt))) = [ContainerInspect, ContainerAttach]"
    using attach_effect(5) [of ?st rt] by (simp add: c numeral_2_eq_2)
  show "\<exists>e. fst (constructor srv rt) = Called e (Some (e = None))"
    by (simp add: c)
qed

text \<open>
  Claim C5, as amended. At construction the controller inspects its container. When the
  answer carries a \<open>Running\<close> value that is present and is not \<open>false\<close>, the server's
  status is ON, the call that opens the attach stream follows the inspect call, and the
  caller is answered only with the outcome of that \<open>attach\<close>. When \<open>Running\<close> is
  \<open>false\<close> or absent, the server is left as it was, the inspect call is the only call
  made, and the caller is answered without an error. When the inspect call fails, its
  error is handed to the caller and nothing else happens.
\<close>

theorem C5_reconcile:
  "(inspect_result rt = Inr d \<and> Running d \<noteq> Undefined \<and> Running d \<noteq> Bool False
      \<longrightarrow> status (server (snd (constructor srv rt))) = ON
          \<and> take 2 (calls (snd (constructor srv rt))) = [ContainerInspect, ContainerAttach]
          \<and> (\<exists>e. fst (constructor srv rt) = Called e (Some (e = None))))
   \<and> (inspect_result rt = Inr d \<and> (Running d = Bool False \<or> Running d = Undefined)
      \<longrightarrow> fst (constructor srv rt) = Called None None
          \<and> server (snd (constructor srv rt)) = srv
          \<and> stream (snd (constructor srv rt)) = None
          \<and> calls (snd (constructor srv rt)) = [ContainerInspect])
   \<and> (inspect_result rt = Inl err
      \<longrightarrow> fst (constructor srv rt) = Called (Some err) None
          \<and> server (snd (constructor srv rt)) = srv
          \<and> calls (snd (constructor srv rt)) = [ContainerInspect])"
proof (intro conjI impI)
  assume a: "inspect_result rt = Inr d \<and> Running d \<noteq> Undefined \<and> Running d \<noteq> Bool False"
  then show "status (server (snd (constructor srv rt))) = ON"
    and "take 2 (calls (snd (constructor srv rt))) = [ContainerInspect, ContainerAttach]"
    and "\<exists>e. fst (constructor srv rt) = Called e (Some (e = None))"
    using constructor_running [of rt d srv] by blast+
next
  assume "inspect_result rt = Inr d \<and> (Running d = Bool False \<or> Running d = Undefined)"
  then show "fst (constructor srv rt) = Called None None"
    and "server (snd (constructor srv rt)) = srv"
    and "stream (snd (constructor srv rt)) = None"
    and "calls (snd (constructor srv rt)) = [ContainerInspect]"
    by (auto simp: constructor_unfold)
next
  assume "inspect_result rt = Inl err"
  then show "fst (constructor srv rt) = Called (Some err) None"
    and "server (snd (constructor srv rt)) = srv"
    and "calls (snd (constructor srv rt)) = [ContainerInspect]"
    by (simp_all add: constructor_unfold)
qed

theorem C5_reconcile_witness:
  "status (server (snd (constructor example_server example_runtime))) = ON
   \<and> take 2 (calls (snd (constructor example_server example_runtime)))
       = [ContainerInspect, ContainerAttach]
   \<and> fst (constructor example_server
            (example_runtime\<lparr>inspect_result := Inr \<lparr>Running = Bool False\<rparr>\<rparr>)) = Called None None
   \<and> status (server (snd (constructor example_server
            (example_runtime\<lparr>inspect_result := Inr \<lparr>Running = Bool False\<rparr>\<rparr>)))) = OFF
   \<and> calls (snd (constructor example_server
            (example_runtime\<lparr>inspect_result := Inr \<lparr>Running = Bool False\<rparr>\<rparr>)))
       = [ContainerInspect]
   \<and> fst (constructor example_server
            (example_runtime\<lparr>inspect_result := Inl (Error ''no such container'')\<rparr>))
       = Called (Some (Error ''no such container'')) None"
  using C5_reconcile [where rt = example_runtime and d = "\<lparr>Running = Bool True\<rparr>"
      and srv = example_server]
    C5_reconcile [where rt = "example_runtime\<lparr>inspect_result := Inr \<lparr>Running = Bool False\<rparr>\<rparr>"
      and d = "\<lparr>Running = Bool False\<rparr>" and srv = example_server]
    C5_reconcile [where rt = "example_runtime\<lparr>inspect_result := Inl (Error ''no such container'')\<rparr>"
      and err = "Error ''no such container''" and srv = example_server]
  by (simp add: example_runtime_def example_server_def)

text \<open>
  The claim as stated fails for an inspect answer without a \<open>Running\<close> value: that is
  not an explicit "not running", yet the status stays OFF and no attach is made.
\<close>

theorem C5_counterexample:
  "Running \<lparr>Running = Undefined\<rparr> \<noteq> Bool False
   \<and> fst (constructor example_server
            (example_runtime\<lparr>inspect_result := Inr \<lparr>Running = Undefined\<rparr>\<rparr>)) = Called None None
   \<and> status (server (snd (constructor example_server
            (example_runtime\<lparr>inspect_result := Inr \<lparr>Running = Undefined\<rparr>\<rparr>)))) = OFF
   \<and> ContainerAttach \<notin> set (calls (snd (constructor example_server
            (example_runtime\<lparr>inspect_result := Inr \<lparr>Running = Undefined\<rparr>\<rparr>))))"
  by (simp add: constructor_unfold example_runtime_def example_server_def)

subsection \<open>Telemetry\<close>

text \<open>
  No method and no handler other than the end of the telemetry stream takes away a
  stored snapshot or telemetry stream. The facts are stated per field, one operation
  at a time.
\<close>

lemma lifecycle_telemetry:
  "procData (snd (start rt st)) = procData st" "procStream (snd (start rt st)) = procStream st"
  "procData (snd (stop rt st)) = procData st" "procStream (snd (stop rt st)) = procStream st"
  "procData (snd (kill rt st)) = procData st" "procStream (snd (kill rt st)) = procStream st"
  "procData (snd (pause rt st)) = procData st" "procStream (snd (pause rt st)) = procStream st"
  "procData (snd (unpause rt st)) = procData st"
  "procStream (snd (unpause rt st)) = procStream st"
  by (simp_all add: start_def stop_def kill_def pause_def unpause_def Let_def issue_def
      split: option.splits)

lemma exec_telemetry:
  "procData (snd (exec command rt st)) = procData st"
  "procStream (snd (exec command rt st)) = procStream st"
  by (simp_all add: exec_def Let_def issue_def split: option.splits prod.splits)

lemma write_telemetry:
  "procData (snd (write_stdin command st)) = procData st"
  "procStream (snd (write_stdin command st)) = procStream st"
  by (simp_all add: write_stdin_def)

lemma handlers_telemetry:
  "procData (dockerAttachStreamData d st) = procData st"
  "procStream (dockerAttachStreamData d st) = procStream st"
  "procData (dockerAttachStreamEnd st) = procData st"
  "procStream (dockerAttachStreamEnd st) = procStream st"
  "procData (dockerExecStreamData d st) = procData st"
  "procStream (dockerExecStreamData d st) = procStream st"
  "procData (dockerExecStreamEnd i st) = procData st"
  "procStream (dockerExecStreamEnd i st) = procStream st"
  by (simp_all add: dockerAttachStreamData_def dockerAttachStreamEnd_def
      dockerExecStreamData_def dockerExecStreamEnd_def)

lemma reattach_telemetry:
  "procData (snd (reattach rt st)) = procData st"
  "procStream (snd (reattach rt st)) = None \<longrightarrow> procStream st = None"
proof -
  let ?st1 = "(issue ContainerInspect st)\<lparr>server := setStatus ON (server (issue ContainerInspect st))\<rparr>"
  have d: "procData ?st1 = procData st" and s: "procStream ?st1 = procStream st"
    by (simp_all add: issue_def)
  have r: "snd (reattach rt st) = issue ContainerInspect st \<or> snd (reattach rt st) = snd (attach rt ?st1)"
    by (simp add: reattach_def inspect_def split: sum.splits prod.splits callback.splits)
  show "procData (snd (reattach rt st)) = procData st"
    using r d attach_effect(2) [of rt ?st1] by (auto simp: issue_def)
  show "procStream (snd (reattach rt st)) = None \<longrightarrow> procStream st = None"
    using r s attach_effect(3) [of rt ?st1] by (auto simp: issue_def)
qed

lemma image_phase_telemetry:
  "procData (snd (image_phase rt config st)) = procData st"
  "procStream (snd (image_phase rt config st)) = procStream st"
  by (simp_all add: image_phase_def Let_def issue_def log_info_def split: option.splits)

lemma create_phase_telemetry:
  "procData (snd (create_phase rt be st)) = procData st"
  "procStream (snd (create_phase rt be st)) = procStream st"
  by (simp_all add: create_phase_def Let_def issue_def)

lemma rebuild_telemetry:
  "procData (snd (rebuild rt st)) = procData st"
  "procStream (snd (rebuild rt st)) = procStream st"
proof -
  obtain e1 st1 where p1: "image_phase rt (build (server st)) st = (e1, st1)"
    by (cases "image_phase rt (build (server st)) st")
  obtain e2 st2 where p2: "create_phase rt (build_bindings (ports (build (server st1)))) st1 = (e2, st2)"
    by (cases "create_phase rt (build_bindings (ports (build (server st1)))) st1")
  have t1: "procData st1 = procData st" "procStream st1 = procStream st"
    using image_phase_telemetry [of rt "build (server st)" st] p1 by simp_all
  have t2: "procData st2 = procData st1" "procStream st2 = procStream st1"
    using create_phase_telemetry [of rt "build_bindings (ports (build (server st1)))" st1] p2
    by simp_all
  show "procData (snd (rebuild rt st)) = procData st"
    using t1 t2 by (simp add: rebuild_def p1 p2 Let_def issue_def split: option.splits sum.splits)
  show "procStream (snd (rebuild rt st)) = procStream st"
    using t1 t2 by (simp add: rebuild_def p1 p2 Let_def issue_def split: option.splits sum.splits)
qed

lemma telemetry_data_keeps:
  "procStream (case dockerTopStreamData rt d st of Inr st' \<Rightarrow> st' | Inl _ \<Rightarrow> st) = procStream st"
  "procData st \<noteq> None \<longrightarrow>
     procData (case dockerTopStreamData rt d st of Inr st' \<Rightarrow> st' | Inl _ \<Rightarrow> st) \<noteq> None"
  by (simp_all add: dockerTopStreamData_def split: chunk.splits option.splits)

lemma step_keeps_procData:
  "op \<noteq> TelemetryEnd \<Longrightarrow> procData st \<noteq> None \<Longrightarrow> procData (step rt op st) \<noteq> None"
  using telemetry_data_keeps(2) [of st rt]
  by (cases op)
    (simp_all add: step_def lifecycle_telemetry exec_telemetry write_telemetry
      handlers_telemetry reattach_telemetry rebuild_telemetry attach_effect stats_effect)

lemma step_keeps_procStream:
  "op \<noteq> TelemetryEnd \<Longrightarrow> procStream st \<noteq> None \<Longrightarrow> procStream (step rt op st) \<noteq> None"
  using reattach_telemetry(2) [of rt st] attach_effect(3) [of rt st]
  by (cases op)
    (auto simp add: step_def lifecycle_telemetry exec_telemetry write_telemetry
      handlers_telemetry rebuild_telemetry stats_effect telemetry_data_keeps
      split: sum.splits)

text \<open>
  Claim C9. A telemetry data event whose text \<^verbatim>\<open>JSON.parse\<close> rejects ends normally and
  leaves the whole controller, the snapshot included, as it was; so do the two halves of
  a payload delivered one after the other when neither half decodes. A snapshot or a
  telemetry stream that is present stays present under every method and every handler
  except the end of the telemetry stream, which clears both.
\<close>

theorem C9_telemetry:
  "(JSON_parse rt t = None \<longrightarrow> dockerTopStreamData rt (Text t) st = Inr st)
   \<and> (JSON_parse rt a = None \<and> JSON_parse rt b = None
      \<longrightarrow> (case dockerTopStreamData rt (Text a) st of
             Inr st' \<Rightarrow> dockerTopStreamData rt (Text b) st'
           | Inl e \<Rightarrow> Inl e) = Inr st)
   \<and> (\<exists>st'. dockerTopStreamData rt d st = Inr st')
   \<and> (procData st \<noteq> None \<and> procData (step rt op st) = None \<longrightarrow> op = TelemetryEnd)
   \<and> (procStream st \<noteq> None \<and> procStream (step rt op st) = None \<longrightarrow> op = TelemetryEnd)
   \<and> procData (step rt TelemetryEnd st) = None
   \<and> procStream (step rt TelemetryEnd st) = None"
proof (intro conjI impI)
  show "\<exists>st'. dockerTopStreamData rt d st = Inr st'"
    by (simp add: dockerTopStreamData_def split: chunk.splits option.splits)
next
  assume "procData st \<noteq> None \<and> procData (step rt op st) = None"
  then show "op = TelemetryEnd"
    using step_keeps_procData [of op st rt] by blast
next
  assume "procStream st \<noteq> None \<and> procStream (step rt op st) = None"
  then show "op = TelemetryEnd"
    using step_keeps_procStream [of op st rt] by blast
qed (simp_all add: dockerTopStreamData_def step_def dockerTopSteamEnd_def)

theorem C9_telemetry_witness:
  "JSON_parse example_runtime ''{'' = None \<and> JSON_parse example_runtime ''}'' = None
   \<and> dockerTopStreamData example_runtime (Text ''{'') example_attached = Inr example_attached
   \<and> (case dockerTopStreamData example_runtime (Text ''{'') example_attached of
         Inr st' \<Rightarrow> dockerTopStreamData example_runtime (Text ''}'') st'
       | Inl e \<Rightarrow> Inl e) = Inr example_attached
   \<and> procData example_attached \<noteq> None \<and> procStream example_attached \<noteq> None
   \<and> procData (step example_runtime TelemetryEnd example_attached) = None
   \<and> procStream (step example_runtime TelemetryEnd example_attached) = None"
proof -
  have p: "JSON_parse example_runtime ''{'' = None" "JSON_parse example_runtime ''}'' = None"
    by (simp_all add: example_runtime_def)
  have q: "procData example_attached \<noteq> None" "procStream example_attached \<noteq> None"
    by (simp_all add: example_attached_def example_docker_def)
  show ?thesis
    using C9_telemetry [where rt = example_runtime and t = "''{''" and a = "''{''"
        and b = "''}''" and st = example_attached and op = TelemetryEnd]
      C9_telemetry [where rt = example_runtime and t = "''}''" and st = example_attached] p q
    by simp
qed

subsection \<open>The end of a rebuild\<close>

lemma image_phase_effect:
  "server (snd (image_phase rt config st)) = server st"
  "containerID (snd (image_phase rt config st)) = containerID st"
  "\<exists>pre. calls (snd (image_phase rt config st)) = calls st @ pre
      \<and> set pre \<subseteq> {ImageExists (image_cfg config), ImagePull (image_cfg config)}"
  by (simp_all add: image_phase_def Let_def issue_def log_info_def split: option.splits)

lemma create_phase_effect:
  "fst (create_phase rt be st) = create_result rt"
  "containerID (snd (create_phase rt be st)) = containerID st"
  "image_cfg (build (server (snd (create_phase rt be st)))) = image_cfg (build (server st))"
  by (simp_all add: create_phase_def Let_def issue_def log_debug_def add_env_fields)

text \<open>
  Claim C1. When the image phase reports no error, the creation call answers with a
  container and the removal call answers with an error, the callback of \<open>rebuild\<close>
  receives that error together with a result made of the new container's id and the
  configured image. The calls of the run end with the creation call followed by the
  removal of the controller's own, previous container; nothing is issued after it, so
  the new container is not taken back.
\<close>

theorem C1_rebuild_removal_failure:
  assumes "fst (image_phase rt (build (server st)) st) = None"
    and "create_result rt = Inr c"
    and "remove_result rt = Some e"
  shows "fst (rebuild rt st) =
           Called (Some e) (Some \<lparr>res_id = cid c, res_image = image_cfg (build (server st))\<rparr>)
    \<and> (\<exists>pre d. calls (snd (rebuild rt st)) =
            calls st @ pre @ [CreateContainer d, ContainerRemove (containerID st)]
          \<and> set pre \<subseteq> {ImageExists (image_cfg (build (server st))),
                        ImagePull (image_cfg (build (server st)))})"
proof -
  obtain st1 where p1: "image_phase rt (build (server st)) st = (None, st1)"
    using assms(1) by (cases "image_phase rt (build (server st)) st") simp
  let ?be = "build_bindings (ports (build (server st1)))"
  obtain st2 where p2: "create_phase rt ?be st1 = (Inr c, st2)"
    using assms(2) create_phase_effect(1) [of rt ?be st1]
    by (cases "create_phase rt ?be st1") simp
  have s1: "server st1 = server st" "containerID st1 = containerID st"
    using image_phase_effect(1,2) [of rt "build (server st)" st] p1 by simp_all
  obtain pre where pre: "calls st1 = calls st @ pre"
    "set pre \<subseteq> {ImageExists (image_cfg (build (server st))),
                  ImagePull (image_cfg (build (server st)))}"
    using image_phase_effect(3) [of rt "build (server st)" st] p1 by auto
  have s2: "containerID st2 = containerID st"
    "image_cfg (build (server st2)) = image_cfg (build (server st))"
    using create_phase_effect(2,3) [of rt ?be st1] p2 s1 by simp_all
  obtain d where d: "calls st2 = calls st1 @ [CreateContainer d]"
    using create_phase_calls [of rt ?be st1] p2 by simp
  have r: "rebuild rt st =
      (Called (Some e) (Some \<lparr>res_id = cid c, res_image = image_cfg (build (server st))\<rparr>),
       issue (ContainerRemove (containerID st))
         (st2\<lparr>server := log_debug ''Removing old server container...'' (server st2)\<rparr>))"
    using s2 by (simp add: rebuild_def p1 p2 assms(3) Let_def issue_def log_debug_def)
  have "calls (snd (rebuild rt st)) =
      calls st @ pre @ [CreateContainer d, ContainerRemove (containerID st)]"
    by (simp add: r issue_def d pre(1))
  with pre(2) r show ?thesis by (simp del: set_append)
qed

theorem C1_rebuild_removal_failure_witness:
  "fst (rebuild (example_runtime\<lparr>remove_result := Some (Error ''removal in progress'')\<rparr>)
          example_docker)
     = Called (Some (Error ''removal in progress''))
         (Some \<lparr>res_id = ''decaf0'', res_image = ''quay.io/pterodactyl/minecraft''\<rparr>)
   \<and> last (calls (snd (rebuild (example_runtime\<lparr>remove_result := Some (Error ''removal in progress'')\<rparr>)
          example_docker))) = ContainerRemove ''c0ffee''"
proof -
  let ?rt = "example_runtime\<lparr>remove_result := Some (Error ''removal in progress'')\<rparr>"
  have a: "fst (image_phase ?rt (build (server example_docker)) example_docker) = None"
    by (simp add: image_phase_def Let_def example_runtime_def)
  have b: "create_result ?rt = Inr \<lparr>cid = ''decaf0''\<rparr>"
    by (simp add: example_runtime_def)
  have c: "remove_result ?rt = Some (Error ''removal in progress'')"
    by simp
  have i: "image_cfg (build (server example_docker)) = ''quay.io/pterodactyl/minecraft''"
    "containerID example_docker = ''c0ffee''"
    by (simp_all add: example_docker_def example_server_def example_config_def)
  from C1_rebuild_removal_failure [OF a b c] i show ?thesis
    by auto
qed

subsection \<open>Port bindings\<close>


lemma key_eq:
  "p @ ''/tcp'' = q @ ''/tcp'' \<longleftrightarrow> p = q" "p @ ''/udp'' = q @ ''/udp'' \<longleftrightarrow> p = q"
  "p @ ''/tcp'' \<noteq> q @ ''/udp''" "p @ ''/udp'' \<noteq> q @ ''/tcp''"
  by simp_all

lemma bind_port_maps:
  "map_of (fst (bind_port ip port be)) =
     (if valid_port port
      then (map_of (fst be))(port @ ''/tcp'' \<mapsto> [\<lparr>HostIp = ip, HostPort = port\<rparr>],
                            port @ ''/udp'' \<mapsto> [\<lparr>HostIp = ip, HostPort = port\<rparr>])
      else map_of (fst be))"
  "map_of (snd (bind_port ip port be)) =
     (if valid_port port
      then (map_of (snd be))(port @ ''/tcp'' \<mapsto> (), port @ ''/udp'' \<mapsto> ())
      else map_of (snd be))"
  by (simp_all add: bind_port_def update_conv')


lemma bind_port_distinct:
  "distinct (map fst (fst be)) \<Longrightarrow> distinct (map fst (fst (bind_port ip port be)))"
  "distinct (map fst (snd be)) \<Longrightarrow> distinct (map fst (snd (bind_port ip port be)))"
  by (simp_all add: bind_port_def distinct_update)

lemma fold_bind_port_lookup:
  assumes "sfx = ''/tcp'' \<or> sfx = ''/udp''"
  shows "map_of (fst (fold (bind_port ip) ps be)) (p @ sfx) =
     (if p \<in> set ps \<and> valid_port p then Some [\<lparr>HostIp = ip, HostPort = p\<rparr>]
      else map_of (fst be) (p @ sfx))"
    and "map_of (snd (fold (bind_port ip) ps be)) (p @ sfx) =
     (if p \<in> set ps \<and> valid_port p then Some () else map_of (snd be) (p @ sfx))"
  using assms by (induction ps arbitrary: be) (auto simp: bind_port_maps)


lemma fold_bind_port_distinct:
  "distinct (map fst (fst be)) \<Longrightarrow> distinct (map fst (fst (fold (bind_port ip) ps be)))"
  "distinct (map fst (snd be)) \<Longrightarrow> distinct (map fst (snd (fold (bind_port ip) ps be)))"
  by (induction ps arbitrary: be) (simp_all add: bind_port_distinct)

lemma bind_ip_lookup:
  assumes "sfx = ''/tcp'' \<or> sfx = ''/udp''"
  shows "map_of (fst (bind_ip (ip, v) be)) (p @ sfx) =
     (if (\<exists>ps. v = Array ps \<and> p \<in> set ps) \<and> valid_port p
      then Some [\<lparr>HostIp = ip, HostPort = p\<rparr>]
      else map_of (fst be) (p @ sfx))"
    and "map_of (snd (bind_ip (ip, v) be)) (p @ sfx) =
     (if (\<exists>ps. v = Array ps \<and> p \<in> set ps) \<and> valid_port p then Some ()
      else map_of (snd be) (p @ sfx))"
  using fold_bind_port_lookup [OF assms]
  by (cases v; simp add: bind_ip_def)+


lemma bind_ip_distinct:
  "distinct (map fst (fst be)) \<Longrightarrow> distinct (map fst (fst (bind_ip e be)))"
  "distinct (map fst (snd be)) \<Longrightarrow> distinct (map fst (snd (bind_ip e be)))"
  by (cases "snd e"; simp add: bind_ip_def fold_bind_port_distinct)+



lemma fold_bind_ip_distinct:
  "distinct (map fst (fst be)) \<Longrightarrow> distinct (map fst (fst (fold bind_ip es be)))"
  "distinct (map fst (snd be)) \<Longrightarrow> distinct (map fst (snd (fold bind_ip es be)))"
  by (induction es arbitrary: be) (simp_all add: bind_ip_distinct)

lemma bind_ip_unlisted:
  assumes "sfx = ''/tcp'' \<or> sfx = ''/udp''"
    and "\<forall>ps. snd e = Array ps \<longrightarrow> p \<notin> set ps"
  shows "map_of (fst (bind_ip e be)) (p @ sfx) = map_of (fst be) (p @ sfx)"
    and "map_of (snd (bind_ip e be)) (p @ sfx) = map_of (snd be) (p @ sfx)"
  using assms(2) bind_ip_lookup [OF assms(1), of "fst e" "snd e" be p]
  by auto

lemma fold_bind_ip_unlisted_fst:
  assumes "sfx = ''/tcp'' \<or> sfx = ''/udp''"
    and "\<forall>e \<in> set es. \<forall>ps. snd e = Array ps \<longrightarrow> p \<notin> set ps"
  shows "map_of (fst (fold bind_ip es be)) (p @ sfx) = map_of (fst be) (p @ sfx)"
  using assms(2)
proof (induction es arbitrary: be)
  case Nil
  show ?case by simp
next
  case (Cons e es)
  from Cons.prems have here: "\<forall>ps. snd e = Array ps \<longrightarrow> p \<notin> set ps"
    and later: "\<forall>e \<in> set es. \<forall>ps. snd e = Array ps \<longrightarrow> p \<notin> set ps"
    by simp_all
  show ?case
    using Cons.IH [OF later, of "bind_ip e be"] bind_ip_unlisted(1) [OF assms(1) here, of be]
    by simp
qed

lemma fold_bind_ip_unlisted_snd:
  assumes "sfx = ''/tcp'' \<or> sfx = ''/udp''"
    and "\<forall>e \<in> set es. \<forall>ps. snd e = Array ps \<longrightarrow> p \<notin> set ps"
  shows "map_of (snd (fold bind_ip es be)) (p @ sfx) = map_of (snd be) (p @ sfx)"
  using assms(2)
proof (induction es arbitrary: be)
  case Nil
  show ?case by simp
next
  case (Cons e es)
  from Cons.prems have here: "\<forall>ps. snd e = Array ps \<longrightarrow> p \<notin> set ps"
    and later: "\<forall>e \<in> set es. \<forall>ps. snd e = Array ps \<longrightarrow> p \<notin> set ps"
    by simp_all
  show ?case
    using Cons.IH [OF later, of "bind_ip e be"] bind_ip_unlisted(2) [OF assms(1) here, of be]
    by simp
qed

lemma distinct_lookup_filter:
  "distinct (map fst al) \<Longrightarrow> map_of al k = Some v \<Longrightarrow> filter (\<lambda>kv. fst kv = k) al = [(k, v)]"
proof (induction al)
  case Nil
  then show ?case by simp
next
  case (Cons a al)
  show ?case
  proof (cases "fst a = k")
    case True
    with Cons.prems have "a = (k, v)" and "k \<notin> fst ` set al"
      by (cases a, simp)+
    then have "filter (\<lambda>kv. fst kv = k) al = []"
      by (auto simp: filter_empty_conv)
    with \<open>a = (k, v)\<close> show ?thesis by simp
  next
    case False
    with Cons show ?thesis by (cases a) auto
  qed
qed

lemma set_update_cases:
  "x \<in> set (AList.update k v al) \<Longrightarrow> x = (k, v) \<or> x \<in> set al"
  by (induction al) (auto split: if_splits)

text \<open>Every stored binding list is a single binding whose port is the one in its key.\<close>

lemma bind_port_shape:
  assumes "\<forall>kv \<in> set (fst be). \<exists>q i. (fst kv = q @ ''/tcp'' \<or> fst kv = q @ ''/udp'')
              \<and> snd kv = [\<lparr>HostIp = i, HostPort = q\<rparr>]"
  shows "\<forall>kv \<in> set (fst (bind_port ip port be)). \<exists>q i. (fst kv = q @ ''/tcp'' \<or> fst kv = q @ ''/udp'')
              \<and> snd kv = [\<lparr>HostIp = i, HostPort = q\<rparr>]"
proof
  fix kv
  assume m: "kv \<in> set (fst (bind_port ip port be))"
  show "\<exists>q i. (fst kv = q @ ''/tcp'' \<or> fst kv = q @ ''/udp'')
              \<and> snd kv = [\<lparr>HostIp = i, HostPort = q\<rparr>]"
  proof (cases "valid_port port")
    case False
    with m assms show ?thesis by (simp add: bind_port_def)
  next
    case True
    with m have "kv = (port @ ''/udp'', [\<lparr>HostIp = ip, HostPort = port\<rparr>])
        \<or> kv = (port @ ''/tcp'', [\<lparr>HostIp = ip, HostPort = port\<rparr>]) \<or> kv \<in> set (fst be)"
      by (auto simp: bind_port_def dest!: set_update_cases)
    then show ?thesis
    proof (elim disjE)
      assume "kv \<in> set (fst be)"
      with assms show ?thesis by blast
    qed auto
  qed
qed

lemma fold_bind_port_shape:
  "\<forall>kv \<in> set (fst be). \<exists>q i. (fst kv = q @ ''/tcp'' \<or> fst kv = q @ ''/udp'')
              \<and> snd kv = [\<lparr>HostIp = i, HostPort = q\<rparr>] \<Longrightarrow>
   \<forall>kv \<in> set (fst (fold (bind_port ip) ps be)). \<exists>q i. (fst kv = q @ ''/tcp'' \<or> fst kv = q @ ''/udp'')
              \<and> snd kv = [\<lparr>HostIp = i, HostPort = q\<rparr>]"
proof (induction ps arbitrary: be)
  case Nil
  then show ?case by simp
next
  case (Cons a ps)
  show ?case
    unfolding fold_simps by (rule Cons.IH) (rule bind_port_shape [OF Cons.prems])
qed

lemma bind_ip_shape:
  "\<forall>kv \<in> set (fst be). \<exists>q i. (fst kv = q @ ''/tcp'' \<or> fst kv = q @ ''/udp'')
              \<and> snd kv = [\<lparr>HostIp = i, HostPort = q\<rparr>] \<Longrightarrow>
   \<forall>kv \<in> set (fst (bind_ip e be)). \<exists>q i. (fst kv = q @ ''/tcp'' \<or> fst kv = q @ ''/udp'')
              \<and> snd kv = [\<lparr>HostIp = i, HostPort = q\<rparr>]"
  using fold_bind_port_shape [of be "fst e"]
  by (cases "snd e") (simp_all add: bind_ip_def)

lemma fold_bind_ip_shape:
  "\<forall>kv \<in> set (fst be). \<exists>q i. (fst kv = q @ ''/tcp'' \<or> fst kv = q @ ''/udp'')
              \<and> snd kv = [\<lparr>HostIp = i, HostPort = q\<rparr>] \<Longrightarrow>
   \<forall>kv \<in> set (fst (fold bind_ip es be)). \<exists>q i. (fst kv = q @ ''/tcp'' \<or> fst kv = q @ ''/udp'')
              \<and> snd kv = [\<lparr>HostIp = i, HostPort = q\<rparr>]"
proof (induction es arbitrary: be)
  case Nil
  then show ?case by simp
next
  case (Cons e es)
  show ?case
    unfolding fold_simps by (rule Cons.IH) (rule bind_ip_shape [OF Cons.prems])
qed

lemma build_bindings_last:
  assumes "valid_port p"
    and "es = front @ (ip2, Array ps2) # es3"
    and "p \<in> set ps2"
    and "\<forall>e \<in> set es3. \<forall>ps. snd e = Array ps \<longrightarrow> p \<notin> set ps"
    and "sfx = ''/tcp'' \<or> sfx = ''/udp''"
  shows "map_of (fst (build_bindings es)) (p @ sfx) = Some [\<lparr>HostIp = ip2, HostPort = p\<rparr>]"
    and "map_of (snd (build_bindings es)) (p @ sfx) = Some ()"
proof -
  let ?be0 = "fold bind_ip front ([], [])"
  have split: "build_bindings es = fold bind_ip es3 (bind_ip (ip2, Array ps2) ?be0)"
    by (simp add: build_bindings_def assms(2))
  show "map_of (fst (build_bindings es)) (p @ sfx) = Some [\<lparr>HostIp = ip2, HostPort = p\<rparr>]"
    unfolding split fold_bind_ip_unlisted_fst [OF assms(5,4)]
    using bind_ip_lookup(1) [OF assms(5), of ip2 "Array ps2" ?be0 p] assms(1,3) by simp
  show "map_of (snd (build_bindings es)) (p @ sfx) = Some ()"
    unfolding split fold_bind_ip_unlisted_snd [OF assms(5,4)]
    using bind_ip_lookup(2) [OF assms(5), of ip2 "Array ps2" ?be0 p] assms(1,3) by simp
qed

lemma build_bindings_distinct:
  "distinct (map fst (fst (build_bindings es)))" "distinct (map fst (snd (build_bindings es)))"
  by (simp_all add: build_bindings_def fold_bind_ip_distinct)

lemma build_bindings_shape:
  "kv \<in> set (fst (build_bindings es)) \<Longrightarrow>
     \<exists>q i. (fst kv = q @ ''/tcp'' \<or> fst kv = q @ ''/udp'') \<and> snd kv = [\<lparr>HostIp = i, HostPort = q\<rparr>]"
  using fold_bind_ip_shape [of "([], [])" es] by (simp add: build_bindings_def)


text \<open>
  The entries of the returned maps for a port whose last lister is a given host IP.
\<close>

lemma build_bindings_single:
  assumes "valid_port p"
    and "es = front @ (ip2, Array ps2) # es3"
    and "p \<in> set ps2"
    and "\<forall>e \<in> set es3. \<forall>ps. snd e = Array ps \<longrightarrow> p \<notin> set ps"
  shows "filter (\<lambda>kv. fst kv = p @ ''/tcp'') (fst (build_bindings es))
           = [(p @ ''/tcp'', [\<lparr>HostIp = ip2, HostPort = p\<rparr>])]
    \<and> filter (\<lambda>kv. fst kv = p @ ''/udp'') (fst (build_bindings es))
           = [(p @ ''/udp'', [\<lparr>HostIp = ip2, HostPort = p\<rparr>])]
    \<and> filter (\<lambda>kv. fst kv = p @ ''/tcp'') (snd (build_bindings es)) = [(p @ ''/tcp'', ())]
    \<and> filter (\<lambda>kv. fst kv = p @ ''/udp'') (snd (build_bindings es)) = [(p @ ''/udp'', ())]"
proof -
  have t: "''/tcp'' = ''/tcp'' \<or> ''/tcp'' = ''/udp''" and u: "''/udp'' = ''/tcp'' \<or> ''/udp'' = ''/udp''"
    by simp_all
  note lt = build_bindings_last [OF assms t]
  note lu = build_bindings_last [OF assms u]
  show ?thesis
    using distinct_lookup_filter [OF build_bindings_distinct(1) lt(1)]
      distinct_lookup_filter [OF build_bindings_distinct(1) lu(1)]
      distinct_lookup_filter [OF build_bindings_distinct(2) lt(2)]
      distinct_lookup_filter [OF build_bindings_distinct(2) lu(2)]
    by blast
qed

subsection \<open>The descriptor a rebuild issues\<close>

lemma descriptors_append: "descriptors (xs @ ys) = descriptors xs @ descriptors ys"
  by (induction xs rule: descriptors.induct) simp_all

lemma descriptors_image_calls:
  "set pre \<subseteq> {ImageExists a, ImagePull b} \<Longrightarrow> descriptors pre = []"
  by (induction pre rule: descriptors.induct) simp_all

lemma descriptor_ports:
  "PortBindings (HostConfig (descriptor rt config dir be)) = fst be"
  "ExposedPorts (descriptor rt config dir be) = snd be"
  by (simp_all add: descriptor_def)

text \<open>
  When the image phase reports no error, a rebuild issues exactly one creation call; its
  descriptor is made from the configuration and from the maps Phase 2 returns.
\<close>

lemma rebuild_descriptors:
  assumes "fst (image_phase rt (build (server st)) st) = None"
  shows "descriptors (calls (snd (rebuild rt st))) =
     descriptors (calls st)
     @ [descriptor rt (add_env rt (build (server st))) (path (server st))
          (build_bindings (ports (build (server st))))]"
proof -
  obtain st1 where p1: "image_phase rt (build (server st)) st = (None, st1)"
    using assms by (cases "image_phase rt (build (server st)) st") simp
  let ?be = "build_bindings (ports (build (server st1)))"
  obtain r st2 where p2: "create_phase rt ?be st1 = (r, st2)"
    by (cases "create_phase rt ?be st1")
  have s1: "server st1 = server st"
    using image_phase_effect(1) [of rt "build (server st)" st] p1 by simp
  obtain pre where pre: "calls st1 = calls st @ pre"
    "set pre \<subseteq> {ImageExists (image_cfg (build (server st))),
                  ImagePull (image_cfg (build (server st)))}"
    using image_phase_effect(3) [of rt "build (server st)" st] p1 by auto
  have c2: "calls st2 = calls st1
      @ [CreateContainer (descriptor rt (add_env rt (build (server st))) (path (server st))
           (build_bindings (ports (build (server st)))))]"
    using create_phase_calls [of rt ?be st1] p2 s1 by simp
  have d2: "descriptors (calls st2) = descriptors (calls st)
      @ [descriptor rt (add_env rt (build (server st))) (path (server st))
           (build_bindings (ports (build (server st))))]"
    by (simp add: c2 pre(1) descriptors_append descriptors_image_calls [OF pre(2)])
  have "calls (snd (rebuild rt st)) = calls st2
      \<or> calls (snd (rebuild rt st)) = calls st2 @ [ContainerRemove (containerID st2)]"
    by (cases r) (simp_all add: rebuild_def p1 p2 Let_def issue_def)
  then show ?thesis
    by (auto simp: d2 descriptors_append)
qed


lemma example_image_phase:
  "fst (image_phase example_runtime (build (server example_docker)) example_docker) = None"
  by (simp add: image_phase_def Let_def example_runtime_def)






subsection \<open>One port under several host IPs\<close>

text \<open>
  Claim C10. The two maps are keyed by port and protocol only, and they reach the
  descriptor as Phase 2 returns them. When two different host IPs both list a port that
  passes the test, and the second of them is the last entry to list it, the descriptor
  that the rebuild issues holds exactly one entry under port/tcp and one under port/udp
  in its bindings, each a single binding with the second IP; its exposed ports hold one
  entry for each key; and no binding anywhere in it carries the first IP with that
  port.
\<close>

theorem C10_shared_port:
  assumes "fst (image_phase rt (build (server st)) st) = None"
    and "valid_port p"
    and "ports (build (server st)) = es1 @ (ip1, Array ps1) # es2 @ (ip2, Array ps2) # es3"
    and "p \<in> set ps1" and "p \<in> set ps2" and "ip1 \<noteq> ip2"
    and "\<forall>e \<in> set es3. \<forall>ps. snd e = Array ps \<longrightarrow> p \<notin> set ps"
  shows "\<exists>d. descriptors (calls (snd (rebuild rt st))) = descriptors (calls st) @ [d]
    \<and> PortBindings (HostConfig d) = fst (build_bindings (ports (build (server st))))
    \<and> ExposedPorts d = snd (build_bindings (ports (build (server st))))
    \<and> filter (\<lambda>kv. fst kv = p @ ''/tcp'') (PortBindings (HostConfig d))
           = [(p @ ''/tcp'', [\<lparr>HostIp = ip2, HostPort = p\<rparr>])]
    \<and> filter (\<lambda>kv. fst kv = p @ ''/udp'') (PortBindings (HostConfig d))
           = [(p @ ''/udp'', [\<lparr>HostIp = ip2, HostPort = p\<rparr>])]
    \<and> filter (\<lambda>kv. fst kv = p @ ''/tcp'') (ExposedPorts d) = [(p @ ''/tcp'', ())]
    \<and> filter (\<lambda>kv. fst kv = p @ ''/udp'') (ExposedPorts d) = [(p @ ''/udp'', ())]
    \<and> (\<forall>kv \<in> set (PortBindings (HostConfig d)). \<lparr>HostIp = ip1, HostPort = p\<rparr> \<notin> set (snd kv))"
proof -
  let ?es = "ports (build (server st))"
  let ?d = "descriptor rt (add_env rt (build (server st))) (path (server st)) (build_bindings ?es)"
  have e: "?es = (es1 @ (ip1, Array ps1) # es2) @ (ip2, Array ps2) # es3"
    by (simp add: assms(3))
  have d: "descriptors (calls (snd (rebuild rt st))) = descriptors (calls st) @ [?d]"
    by (rule rebuild_descriptors [OF assms(1)])
  note single = build_bindings_single [OF assms(2) e assms(5,7)]
  have t: "''/tcp'' = ''/tcp'' \<or> ''/tcp'' = ''/udp''" and u: "''/udp'' = ''/tcp'' \<or> ''/udp'' = ''/udp''"
    by simp_all
  note lt = build_bindings_last [OF assms(2) e assms(5,7) t]
  note lu = build_bindings_last [OF assms(2) e assms(5,7) u]
  have none: "\<lparr>HostIp = ip1, HostPort = p\<rparr> \<notin> set (snd kv)"
    if m: "kv \<in> set (fst (build_bindings ?es))" for kv
  proof
    assume i: "\<lparr>HostIp = ip1, HostPort = p\<rparr> \<in> set (snd kv)"
    obtain q j where k: "fst kv = q @ ''/tcp'' \<or> fst kv = q @ ''/udp''"
      and v: "snd kv = [\<lparr>HostIp = j, HostPort = q\<rparr>]"
      using build_bindings_shape [OF m] by blast
    from i v have q: "q = p" and j: "j = ip1" by simp_all
    have "map_of (fst (build_bindings ?es)) (fst kv) = Some (snd kv)"
      using map_of_is_SomeI [OF build_bindings_distinct(1), of "fst kv" "snd kv" ?es] m by simp
    with k q lt(1) lu(1) v j have "ip1 = ip2" by auto
    with assms(6) show False by simp
  qed
  show ?thesis
    using d single none by (intro exI [of _ ?d]) (simp add: descriptor_ports)
qed

theorem C10_shared_port_witness:
  "\<exists>d. descriptors (calls (snd (rebuild example_runtime example_docker))) = [d]
     \<and> filter (\<lambda>kv. fst kv = ''25565/tcp'') (PortBindings (HostConfig d))
         = [(''25565/tcp'', [\<lparr>HostIp = ''10.0.0.2'', HostPort = ''25565''\<rparr>])]
     \<and> filter (\<lambda>kv. fst kv = ''25565/udp'') (PortBindings (HostConfig d))
         = [(''25565/udp'', [\<lparr>HostIp = ''10.0.0.2'', HostPort = ''25565''\<rparr>])]
     \<and> filter (\<lambda>kv. fst kv = ''25565/tcp'') (ExposedPorts d) = [(''25565/tcp'', ())]
     \<and> filter (\<lambda>kv. fst kv = ''25565/udp'') (ExposedPorts d) = [(''25565/udp'', ())]
     \<and> list_all (\<lambda>kv. \<lparr>HostIp = ''10.0.0.1'', HostPort = ''25565''\<rparr> \<notin> set (snd kv))
          (PortBindings (HostConfig d))"
proof -
  have v: "valid_port ''25565''"
    by (simp add: valid_port_def is_digit_def)
  have e: "ports (build (server example_docker)) =
      [] @ (''10.0.0.1'', Array [''25565'', ''abc'']) # [] @ (''10.0.0.2'', Array [''25565'']) # []"
    by (simp add: example_docker_def example_server_def example_config_def)
  have m: "''25565'' \<in> set [''25565'', ''abc'']" "''25565'' \<in> set [''25565'']"
    by simp_all
  have d: "''10.0.0.1'' \<noteq> ''10.0.0.2''"
    by simp
  have l: "\<forall>e \<in> set []. \<forall>ps. snd e = Array ps \<longrightarrow> ''25565'' \<notin> set ps"
    by simp
  have c: "calls example_docker = []"
    by (simp add: example_docker_def)
  from C10_shared_port [OF example_image_phase v e m d l] c show ?thesis
    by (simp add: list_all_iff) blast
qed

end
